theory Spec2Isabelle
  imports Complex_Main "HOL-Library.Multiset"
begin

section \<open>Errors and tensors\<close>

text \<open>
  The script \<^verbatim>\<open>06_pascal_caffenet_mixup.py\<close> works on dense arrays. A tensor of rank
  \<open>k\<close> is a \<open>k\<close>-fold nested list of reals (exact arithmetic; rounding of the 32-bit
  floats of the runtime is outside the model). Exceptions raised by Python, numpy or the
  tensor runtime are values of \<open>error\<close>.
\<close>

datatype error =
    ValueError              \<comment> \<open>numpy / Python: bad argument, reshape of the wrong size, incompatible shapes\<close>
  | InvalidArgumentError    \<comment> \<open>tensor runtime: index out of range, operands not broadcastable\<close>
  | IndexError              \<comment> \<open>Python: list index out of range\<close>
  | AttributeError          \<comment> \<open>Python: the object has no such attribute\<close>

type_synonym tensor1 = "real list"
type_synonym tensor2 = "real list list"
type_synonym tensor3 = "real list list list"
type_synonym tensor4 = "real list list list list"

definition bind_err :: "error + 'a \<Rightarrow> ('a \<Rightarrow> error + 'b) \<Rightarrow> error + 'b" where
  "bind_err r f = (case r of Inl e \<Rightarrow> Inl e | Inr v \<Rightarrow> f v)"

fun collect :: "(error + 'a) list \<Rightarrow> error + 'a list" where
  "collect [] = Inr []"
| "collect (r # rs) =
     (case r of Inl e \<Rightarrow> Inl e
      | Inr v \<Rightarrow> (case collect rs of Inl e \<Rightarrow> Inl e | Inr vs \<Rightarrow> Inr (v # vs)))"

text \<open>
  Shapes. A nested list is a tensor of shape \<open>(n, k)\<close>, \<open>(h, w, c)\<close> or \<open>(n, h, w, c)\<close>
  when every level has the stated length.
\<close>

definition has_shape2 :: "nat \<times> nat \<Rightarrow> 'a list list \<Rightarrow> bool" where
  "has_shape2 s t = (case s of (n, k) \<Rightarrow> length t = n \<and> list_all (\<lambda>r. length r = k) t)"

definition has_shape3 :: "nat \<times> nat \<times> nat \<Rightarrow> tensor3 \<Rightarrow> bool" where
  "has_shape3 s t = (case s of (h, w, c) \<Rightarrow> length t = h \<and> list_all (has_shape2 (w, c)) t)"

definition has_shape4 :: "nat \<times> nat \<times> nat \<times> nat \<Rightarrow> tensor4 \<Rightarrow> bool" where
  "has_shape4 s t = (case s of (n, h, w, c) \<Rightarrow> length t = n \<and> list_all (has_shape3 (h, w, c)) t)"

text \<open>Two nested lists agree in shape when they agree in length at every level.\<close>

definition cong1 :: "'a list \<Rightarrow> 'b list \<Rightarrow> bool" where
  "cong1 a b \<longleftrightarrow> length a = length b"

definition cong2 :: "'a list list \<Rightarrow> 'b list list \<Rightarrow> bool" where
  "cong2 = list_all2 cong1"

definition cong3 :: "'a list list list \<Rightarrow> 'b list list list \<Rightarrow> bool" where
  "cong3 = list_all2 cong2"

subsection \<open>Broadcasting element-wise operations\<close>

text \<open>
  An element-wise binary operation on two arrays of the same rank pairs the entries along
  each axis when the two lengths agree, repeats the single entry of an axis of length one,
  and fails otherwise (the broadcasting rule of numpy and of the tensor runtime).
\<close>

definition bcast :: "('a \<Rightarrow> 'b \<Rightarrow> error + 'c) \<Rightarrow> 'a list \<Rightarrow> 'b list \<Rightarrow> error + 'c list" where
  "bcast f xs ys =
     (if length xs = length ys then collect (map2 f xs ys)
      else if length xs = 1 then collect (map (f (hd xs)) ys)
      else if length ys = 1 then collect (map (\<lambda>x. f x (hd ys)) xs)
      else Inl InvalidArgumentError)"

definition smul :: "real \<Rightarrow> real \<Rightarrow> error + real" where
  "smul a b = Inr (a * b)"

definition sadd :: "real \<Rightarrow> real \<Rightarrow> error + real" where
  "sadd a b = Inr (a + b)"

definition mul2 :: "tensor2 \<Rightarrow> tensor2 \<Rightarrow> error + tensor2" where
  "mul2 = bcast (bcast smul)"

definition add2 :: "tensor2 \<Rightarrow> tensor2 \<Rightarrow> error + tensor2" where
  "add2 = bcast (bcast sadd)"

definition mul4 :: "tensor4 \<Rightarrow> tensor4 \<Rightarrow> error + tensor4" where
  "mul4 = bcast (bcast (bcast (bcast smul)))"

definition add4 :: "tensor4 \<Rightarrow> tensor4 \<Rightarrow> error + tensor4" where
  "add4 = bcast (bcast (bcast (bcast sadd)))"

text \<open>\<^verbatim>\<open>1 - a\<close> for an array \<open>a\<close>: the scalar is subtracted entry by entry.\<close>

definition rsub2 :: "real \<Rightarrow> tensor2 \<Rightarrow> tensor2" where
  "rsub2 c = map (map (\<lambda>w. c - w))"

definition rsub4 :: "real \<Rightarrow> tensor4 \<Rightarrow> tensor4" where
  "rsub4 c = map (map (map (map (\<lambda>w. c - w))))"

text \<open>
  \<^verbatim>\<open>weights.reshape(batch_size, 1, 1, 1)\<close> and \<^verbatim>\<open>weights.reshape(batch_size, 1)\<close>:
  numpy raises when the array does not have \<open>batch_size\<close> entries.
\<close>

definition reshape_n111 :: "tensor1 \<Rightarrow> nat \<Rightarrow> error + tensor4" where
  "reshape_n111 ws n = (if length ws = n then Inr (map (\<lambda>w. [[[w]]]) ws) else Inl ValueError)"

definition reshape_n1 :: "tensor1 \<Rightarrow> nat \<Rightarrow> error + tensor2" where
  "reshape_n1 ws n = (if length ws = n then Inr (map (\<lambda>w. [w]) ws) else Inl ValueError)"

text \<open>
  \<^verbatim>\<open>tf.gather(params, indices)\<close> along the first axis: row \<open>j\<close> of the result is row
  \<open>indices[j]\<close> of \<open>params\<close>; an index outside \<open>params\<close> is an error.
\<close>

definition gather :: "'a list \<Rightarrow> nat list \<Rightarrow> error + 'a list" where
  "gather params indices =
     (if list_all (\<lambda>j. j < length params) indices
      then Inr (map (\<lambda>j. params ! j) indices)
      else Inl InvalidArgumentError)"

section \<open>The mixup augmentation sampler\<close>

text \<open>
  The process-global random generator of numpy is made explicit: \<open>beta g a b n\<close> is what
  \<^verbatim>\<open>np.random.beta(a, b, n)\<close> returns at this call and \<open>permutation g n\<close> what the
  following \<^verbatim>\<open>np.random.permutation(n)\<close> returns. The generator's contract, that the
  first has \<open>n\<close> entries and the second is a rearrangement of \<open>0, ..., n - 1\<close>, is the
  predicate \<open>draws_ok\<close>.
\<close>

record rng =
  beta :: "real \<Rightarrow> real \<Rightarrow> nat \<Rightarrow> real list"
  permutation :: "nat \<Rightarrow> nat list"

definition draws_ok :: "rng \<Rightarrow> real \<Rightarrow> nat \<Rightarrow> bool" where
  "draws_ok g alpha n \<longleftrightarrow>
     length (beta g alpha alpha n) = n \<and> mset (permutation g n) = mset [0..<n]"

text \<open>
  \<^verbatim>\<open>
  def mixup(images, labels, l_weights, alpha, batch_size):
      weights = np.random.beta(alpha, alpha, batch_size)
      image_weight = weights.reshape(batch_size, 1, 1, 1)
      label_weight = weights.reshape(batch_size, 1)
      l_w_weight = weights.reshape(batch_size, 1)
      ordering = np.random.permutation(batch_size)
      images_new = tf.gather(images, ordering)
      images_old = images
      labels_new = tf.gather(labels, ordering)
      labels_old = labels
      l_weights_new = tf.gather(l_weights, ordering)
      l_weights_old = l_weights
      images = image_weight * images_old + (1 - image_weight) * images_new
      labels = label_weight * labels_old + (1 - label_weight) * labels_new
      return images, labels, l_weights
  \<close>
  \<^verbatim>\<open>np.random.beta\<close> raises \<^verbatim>\<open>ValueError\<close> for a shape parameter that is not positive.
\<close>

definition mixup ::
  "rng \<Rightarrow> tensor4 \<Rightarrow> tensor2 \<Rightarrow> tensor2 \<Rightarrow> real \<Rightarrow> nat \<Rightarrow> error + (tensor4 \<times> tensor2 \<times> tensor2)" where
  "mixup g images labels l_weights alpha batch_size =
     (if alpha \<le> 0 then Inl ValueError
      else
        let weights = beta g alpha alpha batch_size in
        bind_err (reshape_n111 weights batch_size) (\<lambda>image_weight.
        bind_err (reshape_n1 weights batch_size) (\<lambda>label_weight.
        bind_err (reshape_n1 weights batch_size) (\<lambda>l_w_weight.
        let ordering = permutation g batch_size in
        bind_err (gather images ordering) (\<lambda>images_new.
        let images_old = images in
        bind_err (gather labels ordering) (\<lambda>labels_new.
        let labels_old = labels in
        bind_err (gather l_weights ordering) (\<lambda>l_weights_new.
        let l_weights_old = l_weights in
        bind_err (mul4 image_weight images_old) (\<lambda>t1.
        bind_err (mul4 (rsub4 1 image_weight) images_new) (\<lambda>t2.
        bind_err (add4 t1 t2) (\<lambda>images'.
        bind_err (mul2 label_weight labels_old) (\<lambda>u1.
        bind_err (mul2 (rsub2 1 label_weight) labels_new) (\<lambda>u2.
        bind_err (add2 u1 u2) (\<lambda>labels'.
        Inr (images', labels', l_weights))))))))))))))"

text \<open>
  The right-hand sides of the two interpolation lines, written entry by entry:
  \<open>scale\<close> multiplies every entry by one coefficient, \<open>lerp l x y\<close> is
  \<open>l \<cdot> x + (1 - l) \<cdot> y\<close>.
\<close>

definition scale1 :: "real \<Rightarrow> tensor1 \<Rightarrow> tensor1" where
  "scale1 w = map ((*) w)"

definition scale3 :: "real \<Rightarrow> tensor3 \<Rightarrow> tensor3" where
  "scale3 w = map (map (map ((*) w)))"

definition lerp1 :: "real \<Rightarrow> tensor1 \<Rightarrow> tensor1 \<Rightarrow> tensor1" where
  "lerp1 l x y = map2 (\<lambda>a b. l * a + (1 - l) * b) x y"

definition lerp3 :: "real \<Rightarrow> tensor3 \<Rightarrow> tensor3 \<Rightarrow> tensor3" where
  "lerp3 l x y = map2 (map2 (lerp1 l)) x y"

text \<open>
  The data model's description of a mixed batch, for comparison with \<open>mixup\<close>: two
  permutations \<open>p1\<close> and \<open>p2\<close> of the batch are interpolated, example \<open>i\<close> of the
  result being \<open>l\<^sub>i \<cdot> batch[p1 i] + (1 - l\<^sub>i) \<cdot> batch[p2 i]\<close>.
\<close>

definition interpolate_two_permutations ::
  "real list \<Rightarrow> nat list \<Rightarrow> nat list \<Rightarrow> tensor4 \<Rightarrow> tensor2 \<Rightarrow> tensor4 \<times> tensor2" where
  "interpolate_two_permutations lam p1 p2 images labels =
     (map (\<lambda>i. lerp3 (lam ! i) (images ! (p1 ! i)) (images ! (p2 ! i))) [0..<length lam],
      map (\<lambda>i. lerp1 (lam ! i) (labels ! (p1 ! i)) (labels ! (p2 ! i))) [0..<length lam])"

text \<open>
  The example scenario of the specification: four examples with labels
  \<open>[[1,0],[0,1],[1,1],[0,0]]\<close>, weights all one, \<open>alpha = 0.2\<close>, the generator returning
  the coefficients \<open>[0.9, 0.1, 0.5, 0.7]\<close> and the permutation \<open>[2, 0, 3, 1]\<close>.
  The images are single pixels with one channel.
\<close>

definition example_rng :: rng where
  "example_rng = \<lparr>beta = (\<lambda>a b n. [9/10, 1/10, 1/2, 7/10]), permutation = (\<lambda>n. [2, 0, 3, 1])\<rparr>"

definition example_images :: tensor4 where
  "example_images = [[[[10]]], [[[20]]], [[[30]]], [[[40]]]]"

definition example_labels :: tensor2 where
  "example_labels = [[1, 0], [0, 1], [1, 1], [0, 0]]"

definition example_weights :: tensor2 where
  "example_weights = [[1, 1], [1, 1], [1, 1], [1, 1]]"

text \<open>A batch of one example, for which the only permutation is the identity.\<close>

definition single_rng :: rng where
  "single_rng = \<lparr>beta = (\<lambda>a b n. [3/10]), permutation = (\<lambda>n. [0])\<rparr>"

text \<open>A batch of two examples whose drawn permutation swaps them.\<close>

definition swap_rng :: rng where
  "swap_rng = \<lparr>beta = (\<lambda>a b n. [1/4, 1/4]), permutation = (\<lambda>n. [1, 0])\<rparr>"

section \<open>The evaluator\<close>

text \<open>
  The framework operations used by \<^verbatim>\<open>test\<close>, after their documented definitions and
  over the reals.

  \<^verbatim>\<open>tf.nn.sigmoid\<close>, and \<^verbatim>\<open>tf.round\<close>, which rounds to the nearest integer and a tie
  to the even neighbour; \<^verbatim>\<open>tf.cast(x, tf.int32)\<close> drops the fractional part.
\<close>

definition sigmoid :: "real \<Rightarrow> real" where
  "sigmoid x = 1 / (1 + exp (- x))"

definition tf_round :: "real \<Rightarrow> real" where
  "tf_round x =
     (let r = \<lfloor>x\<rfloor>; d = x - of_int r
      in if d < 1/2 then of_int r
         else if 1/2 < d then of_int (r + 1)
         else if even r then of_int r else of_int (r + 1))"

definition cast_int32 :: "real \<Rightarrow> int" where
  "cast_int32 x = (if 0 \<le> x then \<lfloor>x\<rfloor> else \<lceil>x\<rceil>)"

definition cast_float :: "int list list \<Rightarrow> tensor2" where
  "cast_float = map (map of_int)"

text \<open>
  \<^verbatim>\<open>tf.losses.sigmoid_cross_entropy(labels, logits, weights)\<close> with its defaults (no label
  smoothing, reduction \<^verbatim>\<open>SUM_BY_NONZERO_WEIGHTS\<close>): labels and logits must have the same
  shape; the entry loss for label \<open>z\<close> and logit \<open>x\<close> is
  \<open>max(x, 0) - x z + ln(1 + exp(-|x|))\<close>; the weights are broadcast to the shape of the
  losses (an axis of the weights has the length of the losses' axis or length one); the
  result is the sum of the weighted entry losses divided by the number of entries whose
  weight is not zero, and zero when there is no such entry.
\<close>

definition sigmoid_cross_entropy_with_logits :: "real \<Rightarrow> real \<Rightarrow> real" where
  "sigmoid_cross_entropy_with_logits z x = max x 0 - x * z + ln (1 + exp (- \<bar>x\<bar>))"

definition broadcast_to :: "('a \<Rightarrow> 'b \<Rightarrow> error + 'c) \<Rightarrow> 'a list \<Rightarrow> 'b list \<Rightarrow> error + 'c list" where
  "broadcast_to f ws xs =
     (if length ws = length xs then collect (map2 f ws xs)
      else if length ws = 1 then collect (map (f (hd ws)) xs)
      else Inl ValueError)"

definition broadcast_weights :: "tensor2 \<Rightarrow> tensor2 \<Rightarrow> error + tensor2" where
  "broadcast_weights = broadcast_to (broadcast_to (\<lambda>w l. Inr w))"

definition sigmoid_cross_entropy :: "int list list \<Rightarrow> tensor2 \<Rightarrow> int list list \<Rightarrow> error + real" where
  "sigmoid_cross_entropy multi_class_labels logits weights =
     (if \<not> cong2 logits multi_class_labels then Inl ValueError
      else
        let losses = map2 (map2 sigmoid_cross_entropy_with_logits)
                       (cast_float multi_class_labels) logits in
        bind_err (broadcast_weights (cast_float weights) losses) (\<lambda>w.
        let total_loss = sum_list (concat (map2 (map2 (*)) losses w));
            num_present = sum_list (concat (map (map (\<lambda>v. if v = 0 then 0 else 1)) w))
        in Inr (if num_present = 0 then 0 else total_loss / num_present)))"

text \<open>
  \<^verbatim>\<open>tfe.metrics.Mean\<close> keeps a numerator and a denominator. The two variables do not
  exist when the object is constructed (\<open>None\<close>): the first call creates them, both zero,
  before it adds the sum of the values to the first and their number to the second.
  \<^verbatim>\<open>result()\<close> is the quotient; on a metric that was never called it raises
  \<^verbatim>\<open>AttributeError\<close>, and the quotient of two zeros is not a number (\<open>None\<close>).
  \<^verbatim>\<open>tfe.metrics.Accuracy\<close> is the mean of the entry-wise equality of its two arguments,
  which must have the same shape.
\<close>

record metric =
  numer :: real
  denom :: real

definition Mean :: "metric option" where
  "Mean = None"

definition Accuracy :: "metric option" where
  "Accuracy = None"

definition build :: "metric option \<Rightarrow> metric" where
  "build m = (case m of None \<Rightarrow> \<lparr>numer = 0, denom = 0\<rparr> | Some v \<Rightarrow> v)"

definition mean_call :: "metric option \<Rightarrow> real list \<Rightarrow> metric option" where
  "mean_call m values =
     (let v = build m
      in Some \<lparr>numer = numer v + sum_list values, denom = denom v + real (length values)\<rparr>)"

definition result :: "metric option \<Rightarrow> error + real option" where
  "result m =
     (case m of
        None \<Rightarrow> Inl AttributeError
      | Some v \<Rightarrow> Inr (if denom v = 0 then None else Some (numer v / denom v)))"

definition accuracy_call ::
  "metric option \<Rightarrow> int list list \<Rightarrow> int list list \<Rightarrow> error + metric option" where
  "accuracy_call m labels predictions =
     (if \<not> cong2 labels predictions then Inl InvalidArgumentError
      else Inr (mean_call m
             (concat (map2 (map2 (\<lambda>a b. if a = b then 1 else 0)) labels predictions))))"

text \<open>
  A batch of the evaluation dataset is a triple of images, integer labels and integer
  weights; the model is a function from images and the training flag to logits.
  \<^verbatim>\<open>
  def test(model, dataset):
      test_loss = tfe.metrics.Mean()
      test_accuracy = tfe.metrics.Accuracy()
      for batch, (images, labels, weights) in enumerate(dataset):
          logits = model(images, training=False)
          loss_value = tf.losses.sigmoid_cross_entropy(labels, logits, weights)
          prediction = tf.round(tf.nn.sigmoid(logits))
          prediction = tf.cast(prediction, tf.int32)
          test_accuracy(prediction, labels)
          test_loss(loss_value)
      return test_loss.result(), test_accuracy.result()
  \<close>
\<close>

type_synonym batch = "tensor4 \<times> int list list \<times> int list list"
type_synonym model = "tensor4 \<Rightarrow> bool \<Rightarrow> tensor2"

fun test_loop ::
  "model \<Rightarrow> batch list \<Rightarrow> metric option \<Rightarrow> metric option
     \<Rightarrow> error + (metric option \<times> metric option)" where
  "test_loop model [] test_loss test_accuracy = Inr (test_loss, test_accuracy)"
| "test_loop model ((images, labels, weights) # dataset) test_loss test_accuracy =
     (let logits = model images False in
      bind_err (sigmoid_cross_entropy labels logits weights) (\<lambda>loss_value.
      let prediction = map (map (\<lambda>x. tf_round (sigmoid x))) logits;
          prediction = map (map cast_int32) prediction in
      bind_err (accuracy_call test_accuracy prediction labels) (\<lambda>test_accuracy.
      let test_loss = mean_call test_loss [loss_value] in
      test_loop model dataset test_loss test_accuracy)))"

definition test :: "model \<Rightarrow> batch list \<Rightarrow> error + (real option \<times> real option)" where
  "test model dataset =
     (let test_loss = Mean; test_accuracy = Accuracy in
      bind_err (test_loop model dataset test_loss test_accuracy) (\<lambda>(test_loss, test_accuracy).
      bind_err (result test_loss) (\<lambda>loss.
      bind_err (result test_accuracy) (\<lambda>accuracy.
      Inr (loss, accuracy)))))"

text \<open>
  The evaluator as the specification words it. The entry loss is the cross-entropy
  \<open>- z ln s - (1 - z) ln (1 - s)\<close> of the label \<open>z\<close> and the probability
  \<open>s = sigmoid x\<close>; the loss of a batch weights every entry loss and divides by the number
  of entries that count; a logit is binarised to the one of 0 and 1 nearest to its
  sigmoid; the accuracy counts the entries, over all examples and classes, whose binarised
  prediction is the label.
\<close>

definition cross_entropy :: "real \<Rightarrow> real \<Rightarrow> real" where
  "cross_entropy z x = - z * ln (sigmoid x) - (1 - z) * ln (1 - sigmoid x)"

definition entries :: "'a list list \<Rightarrow> 'b list list \<Rightarrow> ('a \<times> 'b) list" where
  "entries a b = zip (concat a) (concat b)"

definition weighted_loss :: "int list list \<Rightarrow> tensor2 \<Rightarrow> int list list \<Rightarrow> real" where
  "weighted_loss labels logits weights =
     (let present = length (filter (\<lambda>w. w \<noteq> 0) (concat weights))
      in if present = 0 then 0
         else (\<Sum>((z, x), w) \<leftarrow> zip (entries labels logits) (concat weights).
                  of_int w * cross_entropy (of_int z) x) / real present)"

definition binarize :: "real \<Rightarrow> int" where
  "binarize x = (if 1/2 < sigmoid x then 1 else 0)"

definition agreements :: "int list list \<Rightarrow> tensor2 \<Rightarrow> nat" where
  "agreements labels logits = length (filter (\<lambda>(z, x). binarize x = z) (entries labels logits))"

definition batch_loss :: "model \<Rightarrow> batch \<Rightarrow> real" where
  "batch_loss model b = (case b of (images, labels, weights) \<Rightarrow>
     weighted_loss labels (model images False) weights)"

definition batch_agreements :: "model \<Rightarrow> batch \<Rightarrow> nat" where
  "batch_agreements model b = (case b of (images, labels, weights) \<Rightarrow>
     agreements labels (model images False))"

definition batch_entries :: "batch \<Rightarrow> nat" where
  "batch_entries b = (case b of (images, labels, weights) \<Rightarrow> length (concat labels))"

text \<open>
  A batch is well formed for a model when the labels and the weights have the shape of
  the logits the model returns for its images.
\<close>

definition batch_ok :: "model \<Rightarrow> batch \<Rightarrow> bool" where
  "batch_ok model b = (case b of (images, labels, weights) \<Rightarrow>
     cong2 labels (model images False) \<and> cong2 weights (model images False))"

text \<open>
  The loss of the whole dataset taken as a single batch: the labels, logits and weights
  of all batches put one after the other.
\<close>

definition dataset_loss :: "model \<Rightarrow> batch list \<Rightarrow> real" where
  "dataset_loss model dataset =
     weighted_loss (concat (map (\<lambda>(images, labels, weights). labels) dataset))
                   (concat (map (\<lambda>(images, labels, weights). model images False) dataset))
                   (concat (map (\<lambda>(images, labels, weights). weights) dataset))"

text \<open>
  A second reading of the loss over all examples: every example is given the loss it has
  on its own, and these are averaged over the examples of the dataset.
\<close>

definition example_losses :: "model \<Rightarrow> batch \<Rightarrow> real list" where
  "example_losses model b = (case b of (images, labels, weights) \<Rightarrow>
     map (\<lambda>(z, x, w). weighted_loss [z] [x] [w]) (zip labels (zip (model images False) weights)))"

definition mean_example_loss :: "model \<Rightarrow> batch list \<Rightarrow> real" where
  "mean_example_loss model dataset =
     (let losses = concat (map (example_losses model) dataset)
      in sum_list losses / real (length losses))"

definition present :: "batch \<Rightarrow> nat" where
  "present b = (case b of (images, labels, weights) \<Rightarrow>
     length (filter (\<lambda>w. w \<noteq> 0) (concat weights)))"

text \<open>The weighted sum of the entry losses of a batch, before the division.\<close>

definition weighted_sum :: "model \<Rightarrow> batch \<Rightarrow> real" where
  "weighted_sum model b = (case b of (images, labels, weights) \<Rightarrow>
     (\<Sum>((z, x), w) \<leftarrow> zip (entries labels (model images False)) (concat weights).
                  of_int w * cross_entropy (of_int z) x))"

text \<open>A batch of size \<open>n\<close> over \<open>k\<close> classes in which every weight counts.\<close>

definition full_batch :: "nat \<Rightarrow> nat \<Rightarrow> batch \<Rightarrow> bool" where
  "full_batch n k b = (case b of (images, labels, weights) \<Rightarrow>
     has_shape2 (n, k) weights \<and> list_all (list_all (\<lambda>w. w \<noteq> 0)) weights)"

text \<open>
  Example inputs for the evaluator: a model whose logits for an example are the pixel
  values of its one-pixel image when training is disabled, and a few batches.
\<close>

definition pixel_model :: model where
  "pixel_model images training =
     map (\<lambda>image. if training then [] else concat (concat image)) images"

definition batch_a :: batch where
  "batch_a = ([[[[0, 0]]]], [[1, 0]], [[1, 0]])"

definition batch_b :: batch where
  "batch_b = ([[[[0, 1]]]], [[1, 1]], [[1, 1]])"

definition batch_c :: batch where
  "batch_c = ([[[[0, 0]]], [[[0, 0]]]], [[1, 0], [1, 0]], [[1, 1], [1, 1]])"

definition batch_d :: batch where
  "batch_d = ([[[[0, 0]]], [[[0, 0]]]], [[1, 0], [0, 1]], [[1, 0], [0, 1]])"

definition batch_e :: batch where
  "batch_e = ([[[[1, 1]]], [[[- 1, 0]]]], [[1, 0], [0, 0]], [[1, 1], [1, 0]])"

definition batch_x :: batch where
  "batch_x = ([[[[1, 0]]], [[[0, 0]]]], [[1, 0], [1, 0]], [[1, 0], [1, 1]])"

section \<open>The network\<close>

text \<open>
  The class \<^verbatim>\<open>CaffeNet\<close> stores the number of classes and its layers. The layers are
  described by their constructor arguments; what a layer does to the shape of its input
  follows the framework's rules (a convolution or pooling without padding over \<open>n\<close>
  positions with window \<open>k\<close> and stride \<open>s\<close> yields \<open>(n - k) div s + 1\<close> positions and
  fails when the window does not fit; with padding \<^verbatim>\<open>same\<close> it yields \<open>n\<close> over \<open>s\<close>
  rounded up; a dense layer replaces the last axis by its number of units).
\<close>

definition CLASS_NAMES :: "string list" where
  "CLASS_NAMES = [''aeroplane'', ''bicycle'', ''bird'', ''boat'', ''bottle'', ''bus'', ''car'',
                  ''cat'', ''chair'', ''cow'', ''diningtable'', ''dog'', ''horse'', ''motorbike'',
                  ''person'', ''pottedplant'', ''sheep'', ''sofa'', ''train'', ''tvmonitor'']"

datatype padding = Valid | Same

datatype layer =
    Conv2D nat "nat \<times> nat" nat padding   \<comment> \<open>filters, kernel size, strides, padding\<close>
  | MaxPool2D "nat \<times> nat" nat            \<comment> \<open>pool size, strides\<close>
  | Flatten
  | Dense nat                               \<comment> \<open>units\<close>
  | Dropout real                            \<comment> \<open>rate\<close>

record CaffeNet =
  num_classes :: nat
  conv1 :: layer
  pool1 :: layer
  conv2 :: layer
  pool2 :: layer
  conv3 :: layer
  conv4 :: layer
  conv5 :: layer
  pool3 :: layer
  flat :: layer
  dense1 :: layer
  dropout1 :: layer
  dense2 :: layer
  dropout2 :: layer
  dense3 :: layer

text \<open>
  \<^verbatim>\<open>def __init__(self, num_classes=10)\<close>: the argument is optional, \<open>None\<close> stands for
  a call that leaves it out.
\<close>

definition CaffeNet_init :: "nat option \<Rightarrow> CaffeNet" where
  "CaffeNet_init arg =
     (let num_classes = (case arg of None \<Rightarrow> 10 | Some n \<Rightarrow> n) in
      \<lparr>num_classes = num_classes,
       conv1 = Conv2D 96 (11, 11) 4 Valid,
       pool1 = MaxPool2D (3, 3) 2,
       conv2 = Conv2D 256 (5, 5) 1 Same,
       pool2 = MaxPool2D (3, 3) 2,
       conv3 = Conv2D 384 (3, 3) 1 Same,
       conv4 = Conv2D 384 (3, 3) 1 Same,
       conv5 = Conv2D 256 (3, 3) 1 Same,
       pool3 = MaxPool2D (3, 3) 2,
       flat = Flatten,
       dense1 = Dense 4096,
       dropout1 = Dropout (1/2),
       dense2 = Dense 4096,
       dropout2 = Dropout (1/2),
       dense3 = Dense num_classes\<rparr>)"

definition window :: "nat \<Rightarrow> nat \<Rightarrow> nat \<Rightarrow> padding \<Rightarrow> error + nat" where
  "window n k s pad =
     (if s = 0 then Inl ValueError
      else case pad of
        Valid \<Rightarrow> (if n < k then Inl ValueError else Inr ((n - k) div s + 1))
      | Same \<Rightarrow> Inr ((n + s - 1) div s))"

fun apply_shape :: "layer \<Rightarrow> nat list \<Rightarrow> error + nat list" where
  "apply_shape (Conv2D filters (kh, kw) strides pad) [b, h, w, c] =
     bind_err (window h kh strides pad) (\<lambda>h'.
     bind_err (window w kw strides pad) (\<lambda>w'. Inr [b, h', w', filters]))"
| "apply_shape (MaxPool2D (ph, pw) strides) [b, h, w, c] =
     bind_err (window h ph strides Valid) (\<lambda>h'.
     bind_err (window w pw strides Valid) (\<lambda>w'. Inr [b, h', w', c]))"
| "apply_shape Flatten (b # dims) = Inr [b, prod_list dims]"
| "apply_shape (Dense units) [b, n] = Inr [b, units]"
| "apply_shape (Dropout rate) shape = Inr shape"
| "apply_shape _ _ = Inl ValueError"

text \<open>
  The shape of the result of \<^verbatim>\<open>call(self, inputs, training=True)\<close>, layer by layer in
  the order of the source; the training flag only switches the dropout layers, which keep
  the shape.
\<close>

definition call_shape :: "CaffeNet \<Rightarrow> nat list \<Rightarrow> bool \<Rightarrow> error + nat list" where
  "call_shape self inputs training =
     bind_err (apply_shape (conv1 self) inputs) (\<lambda>x.
     bind_err (apply_shape (pool1 self) x) (\<lambda>x.
     bind_err (apply_shape (conv2 self) x) (\<lambda>x.
     bind_err (apply_shape (pool2 self) x) (\<lambda>x.
     bind_err (apply_shape (conv3 self) x) (\<lambda>x.
     bind_err (apply_shape (conv4 self) x) (\<lambda>x.
     bind_err (apply_shape (conv5 self) x) (\<lambda>x.
     bind_err (apply_shape (pool3 self) x) (\<lambda>x.
     bind_err (apply_shape (flat self) x) (\<lambda>flat_x.
     bind_err (apply_shape (dense1 self) flat_x) (\<lambda>out.
     bind_err (apply_shape (dropout1 self) out) (\<lambda>out.
     bind_err (apply_shape (dense2 self) out) (\<lambda>out.
     bind_err (apply_shape (dropout2 self) out) (\<lambda>out.
     bind_err (apply_shape (dense3 self) out) (\<lambda>out.
     Inr out))))))))))))))"

text \<open>
  \<^verbatim>\<open>
  def compute_output_shape(self, input_shape):
      shape = tf.TensorShape(input_shape).as_list()
      shape = [shape[0], self.num_classes]
      return tf.TensorShape(shape)
  \<close>
  A dimension is a number or unknown (\<open>None\<close>); \<^verbatim>\<open>shape[0]\<close> of a shape without axes
  raises.
\<close>

definition compute_output_shape :: "CaffeNet \<Rightarrow> nat option list \<Rightarrow> error + nat option list" where
  "compute_output_shape self input_shape =
     (case input_shape of
        [] \<Rightarrow> Inl IndexError
      | d # _ \<Rightarrow> Inr [d, Some (num_classes self)])"

text \<open>\<^verbatim>\<open>model = CaffeNet(num_classes=len(CLASS_NAMES))\<close> in \<^verbatim>\<open>main\<close>.\<close>

definition main_model :: CaffeNet where
  "main_model = CaffeNet_init (Some (length CLASS_NAMES))"

section \<open>The training loop\<close>

text \<open>
  The command-line arguments of \<^verbatim>\<open>main\<close> with their defaults.
\<close>

record args =
  batch_size :: int
  epochs :: int
  lr :: real
  seed :: int
  log_interval :: int
  eval_interval :: int
  log_dir :: string
  data_dir :: string

definition default_args :: args where
  "default_args = \<lparr>batch_size = 20, epochs = 60, lr = 1/1000, seed = 1,
                    log_interval = 50, eval_interval = 250,
                    log_dir = ''tb'', data_dir = ''./data/VOCdevkit/VOC2007''\<rparr>"

text \<open>
  \<^verbatim>\<open>tf.train.exponential_decay(learning_rate, global_step, decay_steps, decay_rate,
  staircase)\<close> is \<open>learning_rate \<cdot> decay_rate ^ (global_step / decay_steps)\<close>, the quotient
  rounded down when \<open>staircase\<close> is set. Under eager execution it returns a function that
  reads the step counter when it is called; \<open>decayed_lr args s\<close> is the value of a call
  \<^verbatim>\<open>decayed_lr()\<close> made while the counter is \<open>s\<close>.
\<close>

definition exponential_decay :: "real \<Rightarrow> nat \<Rightarrow> nat \<Rightarrow> real \<Rightarrow> bool \<Rightarrow> real" where
  "exponential_decay learning_rate global_step decay_steps decay_rate staircase =
     (if staircase then learning_rate * decay_rate ^ (global_step div decay_steps)
      else learning_rate * decay_rate powr (real global_step / real decay_steps))"

definition decayed_lr :: "args \<Rightarrow> nat \<Rightarrow> real" where
  "decayed_lr a global_step = exponential_decay (lr a) global_step 5000 (1/2) True"

text \<open>
  \<^verbatim>\<open>tf.train.MomentumOptimizer(learning_rate=..., momentum=0.9)\<close> stores the learning
  rate it is given; a number (a tensor) given at construction is used unchanged by every
  later \<^verbatim>\<open>apply_gradients\<close>.
\<close>

record optimizer =
  learning_rate :: real
  momentum :: real

definition MomentumOptimizer :: "real \<Rightarrow> real \<Rightarrow> optimizer" where
  "MomentumOptimizer r m = \<lparr>learning_rate = r, momentum = m\<rparr>"

text \<open>
  What a run does is recorded as a trace of events; the values of losses, gradients and
  parameters are not modelled, and the loss and gradient computation of a batch
  (\<^verbatim>\<open>mixup\<close>, \<^verbatim>\<open>util.cal_grad\<close>) and the evaluation (\<^verbatim>\<open>util.eval_dataset_map\<close>) are
  steps that complete.
\<close>

datatype component = Optimizer | Model

datatype event =
    ApplyGradients nat real     \<comment> \<open>parameter update: step counter before the update, learning rate used\<close>
  | TrainingLog nat real        \<comment> \<open>summaries: step counter, the value logged as \<^verbatim>\<open>LR\<close>\<close>
  | Evaluate nat                \<comment> \<open>evaluation over the test set: step counter\<close>
  | Save nat "component list"   \<comment> \<open>\<^verbatim>\<open>root.save\<close>: epoch index, the objects of the checkpoint\<close>

record state =
  global_step :: nat
  trace :: "event list"

definition emit :: "event \<Rightarrow> state \<Rightarrow> state" where
  "emit e st = st\<lparr>trace := trace st @ [e]\<rparr>"

text \<open>
  \<^verbatim>\<open>global_step.numpy() % n\<close>: the remainder of a numpy integer, which is 0 for the
  divisor 0 (with a warning) and has the sign of the divisor otherwise.
\<close>

definition np_mod :: "nat \<Rightarrow> int \<Rightarrow> int" where
  "np_mod a n = (if n = 0 then 0 else int a mod n)"

text \<open>
  The body of the inner loop, lines 215 to 246: \<^verbatim>\<open>optimizer.apply_gradients(...,
  global_step)\<close> updates the parameters with the optimizer's learning rate and adds one to
  the step counter; then the two periodic blocks.
\<close>

definition train_batch :: "args \<Rightarrow> optimizer \<Rightarrow> batch \<Rightarrow> state \<Rightarrow> state" where
  "train_batch a opt b st =
     (let st = emit (ApplyGradients (global_step st) (learning_rate opt)) st;
          st = st\<lparr>global_step := global_step st + 1\<rparr>;
          st = (if np_mod (global_step st) (log_interval a) = 0
                then emit (TrainingLog (global_step st) (decayed_lr a (global_step st))) st
                else st);
          st = (if np_mod (global_step st) (eval_interval a) = 0
                then emit (Evaluate (global_step st)) st
                else st)
      in st)"

text \<open>
  \<^verbatim>\<open>
  for ep in range(args.epochs):
      for batch, (images, labels, weights) in enumerate(train_dataset):
          ...
      if ep % 2 == 0:
          root.save(ckpt_prefix)
  \<close>
  with \<^verbatim>\<open>root = tf.train.Checkpoint(optimizer=optimizer, model=model)\<close>.
\<close>

definition root :: "component list" where
  "root = [Optimizer, Model]"

definition train_epoch :: "args \<Rightarrow> optimizer \<Rightarrow> batch list \<Rightarrow> nat \<Rightarrow> state \<Rightarrow> state" where
  "train_epoch a opt train_dataset ep st =
     (let st = fold (train_batch a opt) train_dataset st
      in if ep mod 2 = 0 then emit (Save ep root) st else st)"

text \<open>
  The part of \<^verbatim>\<open>main\<close> from the creation of the step counter to the end of the epoch
  loop: the counter starts at 0, the optimizer is built with
  \<^verbatim>\<open>learning_rate=decayed_lr()\<close>, a call made at that moment.
\<close>

definition train :: "args \<Rightarrow> batch list \<Rightarrow> state" where
  "train a train_dataset =
     (let st = \<lparr>global_step = 0, trace = []\<rparr>;
          optimizer = MomentumOptimizer (decayed_lr a (global_step st)) (9/10)
      in fold (train_epoch a optimizer train_dataset) [0..<nat (epochs a)] st)"

text \<open>The parameter updates and checkpoints of a trace, in order.\<close>

definition milestone :: "event \<Rightarrow> bool" where
  "milestone e = (case e of ApplyGradients s r \<Rightarrow> True | Save ep c \<Rightarrow> True | _ \<Rightarrow> False)"

definition milestones :: "event list \<Rightarrow> event list" where
  "milestones = filter milestone"

text \<open>
  The milestones of epoch \<open>ep\<close> with \<open>n\<close> batches as the specification describes them, for
  a rule \<open>rate\<close> giving the learning rate of each step and a rule \<open>due\<close> telling after which
  epochs a checkpoint is written.
\<close>

definition epoch_milestones :: "(nat \<Rightarrow> real) \<Rightarrow> (nat \<Rightarrow> bool) \<Rightarrow> nat \<Rightarrow> nat \<Rightarrow> event list" where
  "epoch_milestones rate due n ep =
     map (\<lambda>s. ApplyGradients s (rate s)) [ep * n..<ep * n + n]
     @ (if due ep then [Save ep [Optimizer, Model]] else [])"

text \<open>The parameter updates of a trace: step counter and learning rate used, in order.\<close>

fun update_of :: "event \<Rightarrow> (nat \<times> real) option" where
  "update_of (ApplyGradients s r) = Some (s, r)"
| "update_of _ = None"

definition updates :: "event list \<Rightarrow> (nat \<times> real) list" where
  "updates = List.map_filter update_of"

section \<open>Average precision\<close>

text \<open>
  Modelled from the spec: \<^verbatim>\<open>util.compute_ap\<close> (module \<^verbatim>\<open>util\<close> is imported by the script
  and is not among its sources). Section 4.5 of the specification: for one class, the
  examples whose weight for that class is not zero are kept, with their predicted score
  and their binary label; the decision threshold sweeps the distinct scores from the
  highest down; at a threshold the examples scoring at least as much are predicted
  positive, the precision is the share of true positives among them and the recall the
  share of the positives found; the average precision is the area under the resulting
  precision-recall curve, the sum of precision times gain in recall. For a class without
  a positive example it is undefined (\<open>None\<close>).
\<close>

type_synonym example = "real \<times> int"

definition thresholds :: "example list \<Rightarrow> real list" where
  \<comment> \<open>Modelled from the spec: the distinct score values, highest first.\<close>
  "thresholds ex = rev (sorted_list_of_set (set (map fst ex)))"

definition predicted_positives :: "real \<Rightarrow> example list \<Rightarrow> nat" where
  \<comment> \<open>Modelled from the spec: the examples at or above the threshold.\<close>
  "predicted_positives t ex = length (filter (\<lambda>(s, y). t \<le> s) ex)"

definition true_positives :: "real \<Rightarrow> example list \<Rightarrow> nat" where
  \<comment> \<open>Modelled from the spec: the positive examples at or above the threshold.\<close>
  "true_positives t ex = length (filter (\<lambda>(s, y). t \<le> s \<and> y = 1) ex)"

definition positives :: "example list \<Rightarrow> nat" where
  \<comment> \<open>Modelled from the spec: the positive examples.\<close>
  "positives ex = length (filter (\<lambda>(s, y). y = 1) ex)"

definition precision :: "real \<Rightarrow> example list \<Rightarrow> real" where
  \<comment> \<open>Modelled from the spec: precision at a threshold.\<close>
  "precision t ex = real (true_positives t ex) / real (predicted_positives t ex)"

definition recall :: "real \<Rightarrow> example list \<Rightarrow> real" where
  \<comment> \<open>Modelled from the spec: recall at a threshold.\<close>
  "recall t ex = real (true_positives t ex) / real (positives ex)"

fun area :: "example list \<Rightarrow> real list \<Rightarrow> real \<Rightarrow> real" where
  \<comment> \<open>Modelled from the spec: area under the precision-recall curve, from the recall reached so far.\<close>
  "area ex [] previous = 0"
| "area ex (t # ts) previous =
     (recall t ex - previous) * precision t ex + area ex ts (recall t ex)"

definition average_precision :: "example list \<Rightarrow> real option" where
  \<comment> \<open>Modelled from the spec: average precision of one class.\<close>
  "average_precision ex =
     (if positives ex = 0 then None else Some (area ex (thresholds ex) 0))"

definition class_examples :: "int list list \<Rightarrow> tensor2 \<Rightarrow> int list list \<Rightarrow> nat \<Rightarrow> example list" where
  \<comment> \<open>Modelled from the spec: scores and labels of one class, restricted to nonzero weights.\<close>
  "class_examples gt pred valid cid =
     map (\<lambda>i. (pred ! i ! cid, gt ! i ! cid))
         (filter (\<lambda>i. valid ! i ! cid \<noteq> 0) [0..<length gt])"

definition compute_ap :: "int list list \<Rightarrow> tensor2 \<Rightarrow> int list list \<Rightarrow> nat \<Rightarrow> real option" where
  \<comment> \<open>Modelled from the spec: entry \<open>cid\<close> of \<^verbatim>\<open>util.compute_ap(gt, pred, valid, average=None)\<close>.\<close>
  "compute_ap gt pred valid cid = average_precision (class_examples gt pred valid cid)"

text \<open>
  \<^verbatim>\<open>gt_AP = util.compute_ap(test_labels, test_labels, test_weights, average=None)\<close> at the
  end of \<^verbatim>\<open>main\<close>: the labels serve as scores.
\<close>

definition gt_AP :: "int list list \<Rightarrow> int list list \<Rightarrow> nat \<Rightarrow> real option" where
  "gt_AP test_labels test_weights cid = compute_ap test_labels (cast_float test_labels) test_weights cid"

text \<open>
  Labels are binary, and labels and weights have one row per example and one column per
  class (the invariant of the data model).
\<close>

definition binary :: "int list list \<Rightarrow> bool" where
  "binary labels = list_all (list_all (\<lambda>y. y = 0 \<or> y = 1)) labels"

text \<open>The examples obtained when labels serve as their own scores.\<close>

definition labelled :: "int list \<Rightarrow> example list" where
  "labelled ys = map (\<lambda>y. (of_int y, y)) ys"

section \<open>Properties of the mixup sampler\<close>

lemma collect_map_Inr:
  "(\<And>x. x \<in> set xs \<Longrightarrow> f x = Inr (g x)) \<Longrightarrow> collect (map f xs) = Inr (map g xs)"
  by (induction xs) auto

lemma bcast_single: "bcast f [x] ys = collect (map (f x) ys)"
  by (cases ys rule: list.exhaust; cases "tl ys") (auto simp: bcast_def)

lemma bcast_same: "length xs = length ys \<Longrightarrow> bcast f xs ys = collect (map2 f xs ys)"
  by (simp add: bcast_def)

lemma collect_map2_Inr:
  "(\<And>x y. (x, y) \<in> set (zip xs ys) \<Longrightarrow> f x y = Inr (g x y)) \<Longrightarrow>
   collect (map2 f xs ys) = Inr (map2 g xs ys)"
  using collect_map_Inr [of "zip xs ys" "\<lambda>(x, y). f x y" "\<lambda>(x, y). g x y"] by auto

lemma bcast_single_Inr:
  "(\<And>y. y \<in> set ys \<Longrightarrow> f x y = Inr (g y)) \<Longrightarrow> bcast f [x] ys = Inr (map g ys)"
  by (simp only: bcast_single) (rule collect_map_Inr)

lemma bcast_same_Inr:
  "length xs = length ys \<Longrightarrow> (\<And>x y. (x, y) \<in> set (zip xs ys) \<Longrightarrow> f x y = Inr (g x y)) \<Longrightarrow>
   bcast f xs ys = Inr (map2 g xs ys)"
  by (simp only: bcast_same) (rule collect_map2_Inr)

lemma mul_row: "bcast smul [w] r = Inr (map ((*) w) r)"
  by (rule bcast_single_Inr) (simp add: smul_def)

lemma mul_mat: "bcast (bcast smul) [[w]] m = Inr (map (map ((*) w)) m)"
  by (rule bcast_single_Inr) (rule mul_row)

lemma mul_img: "bcast (bcast (bcast smul)) [[[w]]] x = Inr (map (map (map ((*) w))) x)"
  by (rule bcast_single_Inr) (rule mul_mat)


lemma mul4_reshaped:
  assumes "length ws = length x"
  shows "mul4 (map (\<lambda>w. [[[w]]]) ws) x = Inr (map2 scale3 ws x)"
proof -
  have "mul4 (map (\<lambda>w. [[[w]]]) ws) x
      = Inr (map2 (\<lambda>r y. scale3 (hd (hd (hd r))) y) (map (\<lambda>w. [[[w]]]) ws) x)"
    unfolding mul4_def
  proof (rule bcast_same_Inr)
    show "length (map (\<lambda>w. [[[w]]]) ws) = length x" using assms by simp
  next
    fix r y assume "(r, y) \<in> set (zip (map (\<lambda>w. [[[w]]]) ws) x)"
    then have "r \<in> set (map (\<lambda>w. [[[w]]]) ws)" by (rule set_zip_leftD)
    then obtain w where "r = [[[w]]]" by auto
    then show "bcast (bcast (bcast smul)) r y = Inr (scale3 (hd (hd (hd r))) y)"
      by (simp add: mul_img scale3_def)
  qed
  then show ?thesis by (simp add: zip_map1 case_prod_unfold)
qed

lemma mul2_reshaped:
  assumes "length ws = length x"
  shows "mul2 (map (\<lambda>w. [w]) ws) x = Inr (map2 scale1 ws x)"
proof -
  have "mul2 (map (\<lambda>w. [w]) ws) x
      = Inr (map2 (\<lambda>r y. scale1 (hd r) y) (map (\<lambda>w. [w]) ws) x)"
    unfolding mul2_def
  proof (rule bcast_same_Inr)
    show "length (map (\<lambda>w. [w]) ws) = length x" using assms by simp
  next
    fix r y assume "(r, y) \<in> set (zip (map (\<lambda>w. [w]) ws) x)"
    then have "r \<in> set (map (\<lambda>w. [w]) ws)" by (rule set_zip_leftD)
    then obtain w where "r = [w]" by auto
    then show "bcast smul r y = Inr (scale1 (hd r) y)"
      by (simp add: mul_row scale1_def)
  qed
  then show ?thesis by (simp add: zip_map1 case_prod_unfold)
qed

lemma rsub4_reshaped: "rsub4 c (map (\<lambda>w. [[[w]]]) ws) = map (\<lambda>w. [[[w]]]) (map (\<lambda>w. c - w) ws)"
  by (simp add: rsub4_def)

lemma rsub2_reshaped: "rsub2 c (map (\<lambda>w. [w]) ws) = map (\<lambda>w. [w]) (map (\<lambda>w. c - w) ws)"
  by (simp add: rsub2_def)

lemma list_all2_zipD: "list_all2 P xs ys \<Longrightarrow> (x, y) \<in> set (zip xs ys) \<Longrightarrow> P x y"
  by (auto simp: list_all2_iff)

lemma add_row: "cong1 a b \<Longrightarrow> bcast sadd a b = Inr (map2 (+) a b)"
  by (rule bcast_same_Inr) (simp_all add: sadd_def cong1_def)

lemma add_mat: "cong2 a b \<Longrightarrow> bcast (bcast sadd) a b = Inr (map2 (map2 (+)) a b)"
  unfolding cong2_def
  by (rule bcast_same_Inr) (auto dest: list_all2_lengthD list_all2_zipD intro: add_row)

lemma add_img: "cong3 a b \<Longrightarrow> bcast (bcast (bcast sadd)) a b = Inr (map2 (map2 (map2 (+))) a b)"
  unfolding cong3_def
  by (rule bcast_same_Inr) (auto dest: list_all2_lengthD list_all2_zipD intro: add_mat)

lemma add4_cong: "list_all2 cong3 a b \<Longrightarrow> add4 a b = Inr (map2 (map2 (map2 (map2 (+)))) a b)"
  unfolding add4_def
  by (rule bcast_same_Inr) (auto dest: list_all2_lengthD list_all2_zipD intro: add_img)

lemma add2_cong: "cong2 a b \<Longrightarrow> add2 a b = Inr (map2 (map2 (+)) a b)"
  unfolding add2_def by (rule add_mat)

lemma map2_map_map: "map2 f (map g xs) (map h ys) = map2 (\<lambda>x y. f (g x) (h y)) xs ys"
  by (induction xs arbitrary: ys) (auto simp: zip_Cons1 split: list.splits)

lemma lerp1_scaled: "map2 (+) (scale1 l a) (scale1 (1 - l) b) = lerp1 l a b"
  by (simp only: scale1_def lerp1_def map2_map_map)

lemma lerp3_scaled: "map2 (map2 (map2 (+))) (scale3 l a) (scale3 (1 - l) b) = lerp3 l a b"
  by (simp only: scale3_def lerp3_def lerp1_def map2_map_map)

lemma has_shape2_cong: "has_shape2 s a \<Longrightarrow> has_shape2 s b \<Longrightarrow> cong2 a b"
  by (cases s) (auto simp: has_shape2_def cong2_def cong1_def list_all2_conv_all_nth list_all_length)

lemma has_shape3_cong: "has_shape3 s a \<Longrightarrow> has_shape3 s b \<Longrightarrow> cong3 a b"
  by (cases s) (auto simp: has_shape3_def cong3_def list_all2_conv_all_nth list_all_length intro: has_shape2_cong)

lemma cong1_scale: "cong1 a b \<Longrightarrow> cong1 (scale1 l a) (scale1 m b)"
  by (simp add: cong1_def scale1_def)

lemma cong3_scale: "cong3 a b \<Longrightarrow> cong3 (scale3 l a) (scale3 m b)"
  by (simp add: cong3_def cong2_def cong1_def scale3_def list_all2_conv_all_nth)

lemma has_shape4_nth: "has_shape4 (n, s) x \<Longrightarrow> i < n \<Longrightarrow> has_shape3 s (x ! i)"
  by (cases s) (auto simp: has_shape4_def list_all_length)

lemma has_shape2_nth: "has_shape2 (n, k) x \<Longrightarrow> i < n \<Longrightarrow> length (x ! i) = k"
  by (auto simp: has_shape2_def list_all_length)

lemma has_shape4_length: "has_shape4 (n, s) x \<Longrightarrow> length x = n"
  by (cases s) (auto simp: has_shape4_def)

lemma has_shape2_length: "has_shape2 (n, k) x \<Longrightarrow> length x = n"
  by (auto simp: has_shape2_def)

lemma bind_err_Inr [simp]: "bind_err (Inr v) f = f v"
  by (simp add: bind_err_def)

lemma gather_ok:
  "\<forall>j\<in>set p. j < length xs \<Longrightarrow> gather xs p = Inr (map ((!) xs) p)"
  by (simp add: gather_def list_all_iff)

lemma mix_images:
  assumes lam: "length lam = n" and p: "length p = n" "\<forall>j\<in>set p. j < n"
    and sh: "has_shape4 (n, s) x"
  shows "bind_err (mul4 (map (\<lambda>w. [[[w]]]) lam) x) (\<lambda>t1.
         bind_err (mul4 (rsub4 1 (map (\<lambda>w. [[[w]]]) lam)) (map ((!) x) p)) (\<lambda>t2.
         bind_err (add4 t1 t2) F))
       = F (map (\<lambda>i. lerp3 (lam ! i) (x ! i) (x ! (p ! i))) [0..<n])"
proof -
  have lx: "length x = n" using sh by (rule has_shape4_length)
  let ?t1 = "map2 scale3 lam x"
  let ?t2 = "map2 scale3 (map (\<lambda>w. 1 - w) lam) (map ((!) x) p)"
  have m1: "mul4 (map (\<lambda>w. [[[w]]]) lam) x = Inr ?t1"
    by (rule mul4_reshaped) (simp add: lam lx)
  have m2: "mul4 (rsub4 1 (map (\<lambda>w. [[[w]]]) lam)) (map ((!) x) p) = Inr ?t2"
    unfolding rsub4_reshaped by (rule mul4_reshaped) (simp add: lam p)
  have c: "list_all2 cong3 ?t1 ?t2"
  proof (rule list_all2_all_nthI)
    show "length ?t1 = length ?t2" by (simp add: lam lx p)
  next
    fix i assume "i < length ?t1"
    then have i: "i < n" by (simp add: lam lx)
    then have "p ! i < n" using p by (metis nth_mem)
    then have "cong3 (x ! i) (x ! (p ! i))"
      using has_shape4_nth [OF sh i] has_shape4_nth [OF sh] by (blast intro: has_shape3_cong)
    then show "cong3 (?t1 ! i) (?t2 ! i)"
      using i by (simp add: lam lx p cong3_scale)
  qed
  have a: "add4 ?t1 ?t2 = Inr (map2 (map2 (map2 (map2 (+)))) ?t1 ?t2)"
    using c by (rule add4_cong)
  have e: "map2 (map2 (map2 (map2 (+)))) ?t1 ?t2
         = map (\<lambda>i. lerp3 (lam ! i) (x ! i) (x ! (p ! i))) [0..<n]"
    by (rule nth_equalityI) (simp_all add: lam lx p lerp3_scaled)
  show ?thesis by (simp add: m1 m2 a e)
qed

lemma mix_labels:
  assumes lam: "length lam = n" and p: "length p = n" "\<forall>j\<in>set p. j < n"
    and sh: "has_shape2 (n, k) x"
  shows "bind_err (mul2 (map (\<lambda>w. [w]) lam) x) (\<lambda>t1.
         bind_err (mul2 (rsub2 1 (map (\<lambda>w. [w]) lam)) (map ((!) x) p)) (\<lambda>t2.
         bind_err (add2 t1 t2) F))
       = F (map (\<lambda>i. lerp1 (lam ! i) (x ! i) (x ! (p ! i))) [0..<n])"
proof -
  have lx: "length x = n" using sh by (rule has_shape2_length)
  let ?t1 = "map2 scale1 lam x"
  let ?t2 = "map2 scale1 (map (\<lambda>w. 1 - w) lam) (map ((!) x) p)"
  have m1: "mul2 (map (\<lambda>w. [w]) lam) x = Inr ?t1"
    by (rule mul2_reshaped) (simp add: lam lx)
  have m2: "mul2 (rsub2 1 (map (\<lambda>w. [w]) lam)) (map ((!) x) p) = Inr ?t2"
    unfolding rsub2_reshaped by (rule mul2_reshaped) (simp add: lam p)
  have c: "cong2 ?t1 ?t2"
    unfolding cong2_def
  proof (rule list_all2_all_nthI)
    show "length ?t1 = length ?t2" by (simp add: lam lx p)
  next
    fix i assume "i < length ?t1"
    then have i: "i < n" by (simp add: lam lx)
    then have "p ! i < n" using p by (metis nth_mem)
    then have "cong1 (x ! i) (x ! (p ! i))"
      using has_shape2_nth [OF sh i] has_shape2_nth [OF sh] by (simp add: cong1_def)
    then show "cong1 (?t1 ! i) (?t2 ! i)"
      using i by (simp add: lam lx p cong1_scale)
  qed
  have a: "add2 ?t1 ?t2 = Inr (map2 (map2 (+)) ?t1 ?t2)"
    using c by (rule add2_cong)
  have e: "map2 (map2 (+)) ?t1 ?t2
         = map (\<lambda>i. lerp1 (lam ! i) (x ! i) (x ! (p ! i))) [0..<n]"
    by (rule nth_equalityI) (simp_all add: lam lx p lerp1_scaled)
  show ?thesis by (simp add: m1 m2 a e)
qed

lemma mixup_eq:
  assumes alpha: "0 < alpha"
    and lam: "length (beta g alpha alpha n) = n"
    and p: "length (permutation g n) = n" "\<forall>j\<in>set (permutation g n). j < n"
    and sh: "has_shape4 (n, s) images" "has_shape2 (n, k) labels" "length l_weights = n"
  shows "mixup g images labels l_weights alpha n =
     Inr (map (\<lambda>i. lerp3 (beta g alpha alpha n ! i) (images ! i) (images ! (permutation g n ! i))) [0..<n],
          map (\<lambda>i. lerp1 (beta g alpha alpha n ! i) (labels ! i) (labels ! (permutation g n ! i))) [0..<n],
          l_weights)"
proof -
  have g1: "gather images (permutation g n) = Inr (map ((!) images) (permutation g n))"
    using p has_shape4_length [OF sh(1)] by (simp add: gather_ok)
  have g2: "gather labels (permutation g n) = Inr (map ((!) labels) (permutation g n))"
    using p has_shape2_length [OF sh(2)] by (simp add: gather_ok)
  have g3: "gather l_weights (permutation g n) = Inr (map ((!) l_weights) (permutation g n))"
    using p sh(3) by (simp add: gather_ok)
  show ?thesis
    using alpha
    by (simp add: mixup_def Let_def reshape_n111_def reshape_n1_def lam g1 g2 g3
        mix_images [OF lam p sh(1)] mix_labels [OF lam p sh(2)])
qed

lemma draws_okD:
  assumes "draws_ok g alpha n"
  shows "length (beta g alpha alpha n) = n" "length (permutation g n) = n"
    "\<forall>j\<in>set (permutation g n). j < n"
proof -
  from assms have m: "mset (permutation g n) = mset [0..<n]" by (simp add: draws_ok_def)
  show "length (beta g alpha alpha n) = n" using assms by (simp add: draws_ok_def)
  show "length (permutation g n) = n" using mset_eq_length [OF m] by simp
  show "\<forall>j\<in>set (permutation g n). j < n" using mset_eq_setD [OF m] by simp
qed

lemma lerp1_same: "lerp1 l x x = x"
  by (induction x) (simp_all add: lerp1_def algebra_simps)

lemma lerp3_same: "lerp3 l x x = x"
proof -
  have a: "map2 (lerp1 l) r r = r" for r :: tensor2
    by (induction r) (simp_all add: lerp1_same)
  show ?thesis unfolding lerp3_def by (induction x) (simp_all add: a)
qed

lemma lerp1_length: "length x = k \<Longrightarrow> length y = k \<Longrightarrow> length (lerp1 l x y) = k"
  by (simp add: lerp1_def)

lemma lerp3_shape: "has_shape3 s x \<Longrightarrow> has_shape3 s y \<Longrightarrow> has_shape3 s (lerp3 l x y)"
  by (cases s) (auto simp: has_shape3_def has_shape2_def lerp3_def lerp1_def list_all_length)

text \<open>
  Claim C1. For a batch of \<open>n\<close> examples and \<open>alpha > 0\<close>, \<open>mixup\<close> takes one draw of
  \<open>n\<close> coefficients \<open>l\<^sub>i\<close> and one drawn permutation \<open>p\<close> of \<open>0, ..., n - 1\<close> from the
  generator and returns, for every example \<open>i\<close>, the image
  \<open>l\<^sub>i \<cdot> image\<^sub>i + (1 - l\<^sub>i) \<cdot> image\<^bsub>p i\<^esub>\<close> and the label
  \<open>l\<^sub>i \<cdot> label\<^sub>i + (1 - l\<^sub>i) \<cdot> label\<^bsub>p i\<^esub>\<close>, with the same coefficient and the same
  permutation for image and label. The distribution of the draws belongs to the generator.
\<close>
theorem mixup_interpolates:
  assumes "0 < alpha" and "draws_ok g alpha n"
    and "has_shape4 (n, h, w, c) images" and "has_shape2 (n, k) labels"
    and "has_shape2 (n, k) l_weights"
  shows "\<exists>images' labels'.
      mixup g images labels l_weights alpha n = Inr (images', labels', l_weights) \<and>
      length images' = n \<and> length labels' = n \<and>
      (\<forall>i<n. permutation g n ! i < n \<and>
         images' ! i = lerp3 (beta g alpha alpha n ! i) (images ! i) (images ! (permutation g n ! i)) \<and>
         labels' ! i = lerp1 (beta g alpha alpha n ! i) (labels ! i) (labels ! (permutation g n ! i)))"
proof -
  note d = draws_okD [OF assms(2)]
  have "mixup g images labels l_weights alpha n =
     Inr (map (\<lambda>i. lerp3 (beta g alpha alpha n ! i) (images ! i) (images ! (permutation g n ! i))) [0..<n],
          map (\<lambda>i. lerp1 (beta g alpha alpha n ! i) (labels ! i) (labels ! (permutation g n ! i))) [0..<n],
          l_weights)"
    using assms(1) d assms(3,4) has_shape2_length [OF assms(5)] by (rule mixup_eq)
  moreover have "\<forall>i<n. permutation g n ! i < n" using d(2,3) by (metis nth_mem)
  ultimately show ?thesis by simp
qed

lemma example_draws_ok: "draws_ok example_rng (1/5) 4"
  by (simp add: draws_ok_def example_rng_def upt_rec eval_nat_numeral)

theorem mixup_interpolates_witness:
  "\<exists>images' labels'.
     mixup example_rng example_images example_labels example_weights (1/5) 4
       = Inr (images', labels', example_weights) \<and>
     images' ! 0 = [[[12]]] \<and> labels' ! 0 = [1, 1/10]"
proof -
  have s: "has_shape4 (4, 1, 1, 1) example_images" "has_shape2 (4, 2) example_labels"
    "has_shape2 (4, 2) example_weights"
    by (simp_all add: has_shape4_def has_shape3_def has_shape2_def example_images_def
        example_labels_def example_weights_def)
  have a: "(0::real) < 1/5" by simp
  from mixup_interpolates [OF a example_draws_ok s]
  obtain images' labels' where
    m: "mixup example_rng example_images example_labels example_weights (1/5) 4
       = Inr (images', labels', example_weights)"
    and i: "\<forall>i<4. permutation example_rng 4 ! i < 4 \<and>
         images' ! i = lerp3 (beta example_rng (1/5) (1/5) 4 ! i) (example_images ! i)
            (example_images ! (permutation example_rng 4 ! i)) \<and>
         labels' ! i = lerp1 (beta example_rng (1/5) (1/5) 4 ! i) (example_labels ! i)
            (example_labels ! (permutation example_rng 4 ! i))"
    by blast
  from i have "images' ! 0 = [[[12]]]" "labels' ! 0 = [1, 1/10]"
    by (simp_all add: example_rng_def example_images_def example_labels_def lerp3_def lerp1_def)
  with m show ?thesis by blast
qed

lemma mixup_weights_unchanged:
  "mixup g images labels l_weights alpha b = Inr (ims', lbs', w') \<Longrightarrow> w' = l_weights"
  by (auto simp: mixup_def bind_err_def Let_def split: if_splits sum.splits)

lemma mix_images_shape:
  assumes "has_shape4 (n, s) x" and "\<forall>i<n. p ! i < n"
  shows "has_shape4 (n, s) (map (\<lambda>i. lerp3 (lam ! i) (x ! i) (x ! (p ! i))) [0..<n])"
proof -
  have "has_shape3 s (lerp3 (lam ! i) (x ! i) (x ! (p ! i)))" if "i < n" for i
    using that assms by (intro lerp3_shape has_shape4_nth [OF assms(1)]) auto
  then show ?thesis by (cases s) (simp add: has_shape4_def list_all_length)
qed

lemma mix_labels_shape:
  assumes "has_shape2 (n, k) x" and "\<forall>i<n. p ! i < n"
  shows "has_shape2 (n, k) (map (\<lambda>i. lerp1 (lam ! i) (x ! i) (x ! (p ! i))) [0..<n])"
proof -
  have "length (lerp1 (lam ! i) (x ! i) (x ! (p ! i))) = k" if "i < n" for i
    using that assms by (intro lerp1_length has_shape2_nth [OF assms(1)]) auto
  then show ?thesis by (simp add: has_shape2_def list_all_length)
qed

text \<open>
  Claim C2. Whatever \<open>mixup\<close> returns, the returned weights are the input weights; and on
  a well-formed batch the returned images and labels have the shapes of the input images
  and labels.
\<close>
theorem mixup_shapes_and_weights:
  "(\<forall>ims' lbs' w'. mixup g images labels l_weights alpha b = Inr (ims', lbs', w') \<longrightarrow> w' = l_weights)
   \<and> (0 < alpha \<and> draws_ok g alpha n \<and> has_shape4 (n, h, w, c) images \<and>
      has_shape2 (n, k) labels \<and> has_shape2 (n, k) l_weights \<longrightarrow>
      (\<exists>ims' lbs'. mixup g images labels l_weights alpha n = Inr (ims', lbs', l_weights) \<and>
         has_shape4 (n, h, w, c) ims' \<and> has_shape2 (n, k) lbs'))"
proof (intro conjI allI impI)
  fix ims' lbs' w'
  assume "mixup g images labels l_weights alpha b = Inr (ims', lbs', w')"
  then show "w' = l_weights" by (rule mixup_weights_unchanged)
next
  assume a: "0 < alpha \<and> draws_ok g alpha n \<and> has_shape4 (n, h, w, c) images \<and>
      has_shape2 (n, k) labels \<and> has_shape2 (n, k) l_weights"
  then have d: "draws_ok g alpha n" by simp
  note dd = draws_okD [OF d]
  have pn: "\<forall>i<n. permutation g n ! i < n" using dd(2,3) by (metis nth_mem)
  have "mixup g images labels l_weights alpha n =
     Inr (map (\<lambda>i. lerp3 (beta g alpha alpha n ! i) (images ! i) (images ! (permutation g n ! i))) [0..<n],
          map (\<lambda>i. lerp1 (beta g alpha alpha n ! i) (labels ! i) (labels ! (permutation g n ! i))) [0..<n],
          l_weights)"
    using a dd by (intro mixup_eq) (auto dest: has_shape2_length)
  moreover have "has_shape4 (n, h, w, c)
      (map (\<lambda>i. lerp3 (beta g alpha alpha n ! i) (images ! i) (images ! (permutation g n ! i))) [0..<n])"
    using a pn by (intro mix_images_shape) auto
  moreover have "has_shape2 (n, k)
      (map (\<lambda>i. lerp1 (beta g alpha alpha n ! i) (labels ! i) (labels ! (permutation g n ! i))) [0..<n])"
    using a pn by (intro mix_labels_shape) auto
  ultimately show "\<exists>ims' lbs'. mixup g images labels l_weights alpha n = Inr (ims', lbs', l_weights) \<and>
         has_shape4 (n, h, w, c) ims' \<and> has_shape2 (n, k) lbs'"
    by blast
qed

lemma example_shapes:
  "has_shape4 (4, 1, 1, 1) example_images" "has_shape2 (4, 2) example_labels"
  "has_shape2 (4, 2) example_weights"
  by (simp_all add: has_shape4_def has_shape3_def has_shape2_def example_images_def
      example_labels_def example_weights_def)

theorem mixup_shapes_and_weights_witness:
  "mixup example_rng example_images example_labels example_weights (1/5) 4
       = Inr ([[[[12]]], [[[11]]], [[[35]]], [[[34]]]],
              [[1, 1/10], [9/10, 1/10], [1/2, 1/2], [0, 3/10]], example_weights)
   \<and> has_shape4 (4, 1, 1, 1) [[[[12]]], [[[11]]], [[[35]]], [[[34::real]]]]
   \<and> has_shape2 (4, 2) [[1, 1/10], [9/10, 1/10], [1/2, 1/2], [0, 3/10::real]]"
proof -
  have v: "mixup example_rng example_images example_labels example_weights (1/5) 4
       = Inr ([[[[12]]], [[[11]]], [[[35]]], [[[34]]]],
              [[1, 1/10], [9/10, 1/10], [1/2, 1/2], [0, 3/10]], example_weights)"
    by (simp add: mixup_def example_rng_def example_images_def example_labels_def
      example_weights_def reshape_n111_def reshape_n1_def gather_def bind_err_def
      mul4_def mul2_def add4_def add2_def rsub4_def rsub2_def bcast_def smul_def sadd_def Let_def)
  from mixup_shapes_and_weights [of example_rng example_images example_labels example_weights
      "1/5" 4 4 1 1 1 2] example_draws_ok example_shapes
  obtain ims' lbs' where
    "mixup example_rng example_images example_labels example_weights (1/5) 4
       = Inr (ims', lbs', example_weights)"
    "has_shape4 (4, 1, 1, 1) ims'" "has_shape2 (4, 2) lbs'"
    by auto
  with v show ?thesis by simp
qed

lemma perm_singleton:
  assumes "mset p = mset [0..<1]"
  shows "p = [0::nat]"
proof -
  from assms have "mset p = {#0#}" by simp
  then show ?thesis by (simp add: mset_single_iff_right)
qed

lemma map_lerp3_same: "length x = n \<Longrightarrow> map (\<lambda>i. lerp3 (lam ! i) (x ! i) (x ! i)) [0..<n] = x"
  by (rule nth_equalityI) (simp_all add: lerp3_same)

lemma map_lerp1_same: "length x = n \<Longrightarrow> map (\<lambda>i. lerp1 (lam ! i) (x ! i) (x ! i)) [0..<n] = x"
  by (rule nth_equalityI) (simp_all add: lerp1_same)

lemma mixup_identity_perm:
  assumes "0 < alpha" and "length (beta g alpha alpha n) = n"
    and sh: "has_shape4 (n, h, w, c) images" "has_shape2 (n, k) labels" "has_shape2 (n, k) l_weights"
    and p: "permutation g n = [0..<n]"
  shows "mixup g images labels l_weights alpha n = Inr (images, labels, l_weights)"
proof -
  have "mixup g images labels l_weights alpha n =
     Inr (map (\<lambda>i. lerp3 (beta g alpha alpha n ! i) (images ! i) (images ! (permutation g n ! i))) [0..<n],
          map (\<lambda>i. lerp1 (beta g alpha alpha n ! i) (labels ! i) (labels ! (permutation g n ! i))) [0..<n],
          l_weights)"
    using assms(1,2) sh(1,2) has_shape2_length [OF sh(3)]
    by (intro mixup_eq) (simp_all add: p)
  moreover have "map (\<lambda>i. lerp3 (beta g alpha alpha n ! i) (images ! i) (images ! (permutation g n ! i))) [0..<n]
      = map (\<lambda>i. lerp3 (beta g alpha alpha n ! i) (images ! i) (images ! i)) [0..<n]"
    by (simp add: p)
  moreover have "map (\<lambda>i. lerp1 (beta g alpha alpha n ! i) (labels ! i) (labels ! (permutation g n ! i))) [0..<n]
      = map (\<lambda>i. lerp1 (beta g alpha alpha n ! i) (labels ! i) (labels ! i)) [0..<n]"
    by (simp add: p)
  ultimately show ?thesis
    using has_shape4_length [OF sh(1)] has_shape2_length [OF sh(2)]
    by (simp add: map_lerp3_same map_lerp1_same)
qed

text \<open>
  Claim C6. When the drawn permutation is the identity, the images and labels returned by
  \<open>mixup\<close> are the input images and labels, for every vector of coefficients; for a
  batch of one example every permutation is the identity, so \<open>mixup\<close> returns its input.
\<close>
theorem mixup_identity_permutation:
  assumes "0 < alpha" and "length (beta g alpha alpha n) = n"
    and "has_shape4 (n, h, w, c) images" and "has_shape2 (n, k) labels"
    and "has_shape2 (n, k) l_weights"
  shows "(permutation g n = [0..<n] \<longrightarrow>
            mixup g images labels l_weights alpha n = Inr (images, labels, l_weights))
       \<and> (n = 1 \<and> mset (permutation g n) = mset [0..<n] \<longrightarrow>
            mixup g images labels l_weights alpha n = Inr (images, labels, l_weights))"
proof (intro conjI impI)
  assume "permutation g n = [0..<n]"
  with assms show "mixup g images labels l_weights alpha n = Inr (images, labels, l_weights)"
    by (rule mixup_identity_perm)
next
  assume a: "n = 1 \<and> mset (permutation g n) = mset [0..<n]"
  then have n: "n = 1" by (rule conjunct1)
  from a have "mset (permutation g n) = mset [0..<n]" by (rule conjunct2)
  then have m: "mset (permutation g n) = mset [0..<1]" by (simp only: n)
  from m have "permutation g n = [0]" by (rule perm_singleton)
  then have "permutation g n = [0..<n]" using n by simp
  with assms show "mixup g images labels l_weights alpha n = Inr (images, labels, l_weights)"
    by (rule mixup_identity_perm)
qed

theorem mixup_identity_permutation_witness:
  "mixup single_rng [[[[10, 20, 30]]]] [[1, 0]] [[1, 1]] (1/5) 1
     = Inr ([[[[10, 20, 30]]]], [[1, 0]], [[1, 1]])"
  using mixup_identity_permutation [of "1/5" single_rng 1 1 1 3 "[[[[10, 20, 30]]]]" 2
      "[[1, 0]]" "[[1, 1]]"]
  by (simp add: single_rng_def has_shape4_def has_shape3_def has_shape2_def)

text \<open>
  Claim C5 says that both operands of the convex combination are drawn permutations of the
  batch. In \<open>mixup\<close> the first operand is the batch in its given order: with the drawn
  permutation \<open>[1, 0]\<close> and coefficients \<open>[1/4, 1/4]\<close> the result differs from the
  interpolation of two permuted copies.
\<close>
theorem mixup_two_permutations_counterexample:
  "mixup swap_rng [[[[1]]], [[[2]]]] [[1], [0]] [[1], [1]] (1/5) 2
     = Inr ([[[[7/4]]], [[[5/4]]]], [[1/4], [3/4]], [[1], [1]])
   \<and> interpolate_two_permutations (beta swap_rng (1/5) (1/5) 2) [1, 0] (permutation swap_rng 2)
        [[[[1]]], [[[2]]]] [[1], [0]]
     = ([[[[2]]], [[[1]]]], [[0], [1]])
   \<and> mixup swap_rng [[[[1]]], [[[2]]]] [[1], [0]] [[1], [1]] (1/5) 2
     \<noteq> Inr (fst (interpolate_two_permutations (beta swap_rng (1/5) (1/5) 2) [1, 0]
                   (permutation swap_rng 2) [[[[1]]], [[[2]]]] [[1], [0]]),
              snd (interpolate_two_permutations (beta swap_rng (1/5) (1/5) 2) [1, 0]
                   (permutation swap_rng 2) [[[[1]]], [[[2]]]] [[1], [0]]),
              [[1], [1]])"
  by (simp add: mixup_def swap_rng_def reshape_n111_def reshape_n1_def gather_def bind_err_def
      mul4_def mul2_def add4_def add2_def rsub4_def rsub2_def bcast_def smul_def sadd_def
      interpolate_two_permutations_def lerp3_def lerp1_def upt_rec Let_def)

text \<open>
  Claim C5, amended. The mixed batch interpolates the input batch in its given order (the
  identity arrangement) with one drawn permutation of it, with a coefficient per example.
\<close>
theorem mixup_one_permutation:
  assumes "0 < alpha" and "draws_ok g alpha n"
    and "has_shape4 (n, h, w, c) images" and "has_shape2 (n, k) labels"
    and "has_shape2 (n, k) l_weights"
  shows "\<exists>images' labels'.
      mixup g images labels l_weights alpha n = Inr (images', labels', l_weights) \<and>
      (images', labels') =
        interpolate_two_permutations (beta g alpha alpha n) [0..<n] (permutation g n) images labels"
proof -
  note d = draws_okD [OF assms(2)]
  have "mixup g images labels l_weights alpha n =
     Inr (map (\<lambda>i. lerp3 (beta g alpha alpha n ! i) (images ! i) (images ! (permutation g n ! i))) [0..<n],
          map (\<lambda>i. lerp1 (beta g alpha alpha n ! i) (labels ! i) (labels ! (permutation g n ! i))) [0..<n],
          l_weights)"
    using assms(1) d assms(3,4) has_shape2_length [OF assms(5)] by (rule mixup_eq)
  then show ?thesis by (simp add: interpolate_two_permutations_def d(1))
qed

theorem mixup_one_permutation_witness:
  "\<exists>images' labels'.
     mixup example_rng example_images example_labels example_weights (1/5) 4
       = Inr (images', labels', example_weights) \<and>
     (images', labels') =
       interpolate_two_permutations [9/10, 1/10, 1/2, 7/10] [0, 1, 2, 3] [2, 0, 3, 1]
         example_images example_labels"
proof -
  have a: "(0::real) < 1/5" by simp
  have u: "[0..<4] = [0, 1, 2, 3::nat]" by (simp add: upt_rec)
  show ?thesis
    using mixup_one_permutation [OF a example_draws_ok example_shapes]
    by (simp add: u example_rng_def)
qed

section \<open>Properties of the evaluator\<close>

lemma sigmoid_pos: "0 < sigmoid x"
  by (simp add: sigmoid_def add_pos_pos)

lemma sigmoid_less_one: "sigmoid x < 1"
  by (simp add: sigmoid_def add_pos_pos)

lemma sigmoid_gt_half_iff: "1/2 < sigmoid x \<longleftrightarrow> 0 < x"
proof -
  have p: "0 < 1 + exp (- x)" using exp_gt_zero [of "- x"] by linarith
  have "1/2 < sigmoid x \<longleftrightarrow> 1 + exp (- x) < 2"
    unfolding sigmoid_def using p by (simp add: pos_less_divide_eq)
  also have "\<dots> \<longleftrightarrow> exp (- x) < exp 0" by simp
  also have "\<dots> \<longleftrightarrow> 0 < x" by (simp only: exp_less_cancel_iff) simp
  finally show ?thesis .
qed

lemma tf_round_sigmoid: "tf_round (sigmoid x) = (if 1/2 < sigmoid x then 1 else 0)"
proof -
  have f: "\<lfloor>sigmoid x\<rfloor> = 0"
    using sigmoid_pos [of x] sigmoid_less_one [of x] by (simp add: floor_eq_iff)
  show ?thesis by (simp add: tf_round_def f Let_def)
qed

lemma prediction_binarize: "cast_int32 (tf_round (sigmoid x)) = binarize x"
  by (simp add: tf_round_sigmoid cast_int32_def binarize_def)

lemma one_minus_sigmoid: "1 - sigmoid x = exp (- x) / (1 + exp (- x))"
proof -
  have "1 + exp (- x) \<noteq> 0" using exp_gt_zero [of "- x"] by linarith
  then show ?thesis by (simp add: sigmoid_def field_simps)
qed

lemma ln_sigmoid: "ln (sigmoid x) = - ln (1 + exp (- x))"
proof -
  have "0 < 1 + exp (- x)" using exp_gt_zero [of "- x"] by linarith
  then show ?thesis by (simp add: sigmoid_def ln_div)
qed

lemma ln_one_minus_sigmoid: "ln (1 - sigmoid x) = - x - ln (1 + exp (- x))"
proof -
  have "0 < 1 + exp (- x)" using exp_gt_zero [of "- x"] by linarith
  then show ?thesis by (simp add: one_minus_sigmoid ln_div)
qed

lemma softplus_neg: "ln (1 + exp (- x)) = ln (1 + exp x) - (x::real)"
proof -
  have "1 + exp (- x) = (1 + exp x) / exp x"
    by (simp add: exp_minus field_simps)
  moreover have "0 < 1 + exp x" using exp_gt_zero [of x] by linarith
  ultimately show ?thesis by (simp add: ln_div)
qed

lemma stable_cross_entropy: "sigmoid_cross_entropy_with_logits z x = cross_entropy z x"
proof (cases "0 \<le> x")
  case True
  then show ?thesis
    by (simp add: sigmoid_cross_entropy_with_logits_def cross_entropy_def ln_sigmoid
        ln_one_minus_sigmoid algebra_simps)
next
  case False
  then have "max x 0 = 0" "\<bar>x\<bar> = - x" by simp_all
  then show ?thesis
    using softplus_neg [of x]
    by (simp add: sigmoid_cross_entropy_with_logits_def cross_entropy_def ln_sigmoid
        ln_one_minus_sigmoid algebra_simps)
qed

lemma map2_fst: "length xs = length ys \<Longrightarrow> map2 (\<lambda>x y. x) xs ys = xs"
  by (induction xs ys rule: list_induct2) simp_all

lemma broadcast_to_same:
  "length ws = length xs \<Longrightarrow> (\<And>w x. (w, x) \<in> set (zip ws xs) \<Longrightarrow> f w x = Inr (g w x)) \<Longrightarrow>
   broadcast_to f ws xs = Inr (map2 g ws xs)"
  by (simp add: broadcast_to_def collect_map2_Inr)

lemma broadcast_row: "cong1 w l \<Longrightarrow> broadcast_to (\<lambda>w l. Inr w) w l = Inr w"
proof -
  assume c: "cong1 w l"
  then have "broadcast_to (\<lambda>w l. Inr w) w l = Inr (map2 (\<lambda>x y. x) w l)"
    by (intro broadcast_to_same) (simp_all add: cong1_def)
  then show ?thesis using c by (simp add: map2_fst cong1_def)
qed

lemma broadcast_weights_same: "cong2 w l \<Longrightarrow> broadcast_weights w l = Inr w"
proof -
  assume c: "cong2 w l"
  then have len: "length w = length l" by (simp add: cong2_def list_all2_lengthD)
  have "broadcast_weights w l = Inr (map2 (\<lambda>x y. x) w l)"
    unfolding broadcast_weights_def
  proof (rule broadcast_to_same [OF len])
    fix a b assume "(a, b) \<in> set (zip w l)"
    then have "cong1 a b" using c unfolding cong2_def by (rule list_all2_zipD [rotated])
    then show "broadcast_to (\<lambda>w l. Inr w) a b = Inr a" by (rule broadcast_row)
  qed
  then show ?thesis using len by (simp add: map2_fst)
qed

lemma concat_map2:
  "cong2 a b \<Longrightarrow> concat (map2 (map2 f) a b) = map2 f (concat a) (concat b)"
  unfolding cong2_def
  by (induction a b rule: list_all2_induct) (simp_all add: cong1_def)

lemma cong2_length_concat: "cong2 a b \<Longrightarrow> length (concat a) = length (concat b)"
  unfolding cong2_def
  by (induction a b rule: list_all2_induct) (simp_all add: cong1_def)

lemma cong2_sym: "cong2 a b \<Longrightarrow> cong2 b a"
  unfolding cong2_def cong1_def by (simp add: list_all2_conv_all_nth)

lemma cong2_trans: "cong2 a b \<Longrightarrow> cong2 b c \<Longrightarrow> cong2 a c"
  unfolding cong2_def cong1_def by (simp add: list_all2_conv_all_nth)

lemma cong2_map: "cong2 (map (map f) a) b \<longleftrightarrow> cong2 a b"
  unfolding cong2_def cong1_def by (simp add: list_all2_conv_all_nth)

lemma cong2_map2: "cong2 a b \<Longrightarrow> cong2 (map2 (map2 f) a b) b"
  unfolding cong2_def cong1_def by (simp add: list_all2_conv_all_nth)

lemma concat_map_map: "concat (map (map f) a) = map f (concat a)"
  by (simp add: map_concat)

lemma sum_indicator: "(\<Sum>x\<leftarrow>xs. if P x then 1 else 0) = real (length (filter P xs))"
  by (induction xs) simp_all

lemma sigmoid_cross_entropy_eq:
  assumes l: "cong2 labels logits" and w: "cong2 weights logits"
  shows "sigmoid_cross_entropy labels logits weights = Inr (weighted_loss labels logits weights)"
proof -
  let ?losses = "map2 (map2 sigmoid_cross_entropy_with_logits) (cast_float labels) logits"
  have cl: "cong2 (cast_float labels) logits" using l by (simp add: cast_float_def cong2_map)
  have c1: "cong2 ?losses logits" using cl by (rule cong2_map2)
  have c2: "cong2 (cast_float weights) ?losses"
    using w c1 by (simp add: cast_float_def cong2_map) (metis cong2_sym cong2_trans)
  have b: "broadcast_weights (cast_float weights) ?losses = Inr (cast_float weights)"
    using c2 by (rule broadcast_weights_same)
  have fl: "concat ?losses = map2 sigmoid_cross_entropy_with_logits (map of_int (concat labels)) (concat logits)"
    using cl by (simp add: concat_map2) (simp add: cast_float_def concat_map_map)
  have tot: "sum_list (concat (map2 (map2 (*)) ?losses (cast_float weights)))
      = (\<Sum>((z, x), w) \<leftarrow> zip (entries labels logits) (concat weights).
                  of_int w * cross_entropy (of_int z) x)"
  proof -
    have "concat (map2 (map2 (*)) ?losses (cast_float weights))
        = map2 (*) (concat ?losses) (map of_int (concat weights))"
      using cong2_sym [OF c2] by (simp add: concat_map2) (simp add: cast_float_def concat_map_map)
    also have "\<dots> = map (\<lambda>((z, x), w). of_int w * cross_entropy (of_int z) x)
        (zip (entries labels logits) (concat weights))"
      unfolding fl entries_def
      by (simp add: zip_map1 zip_map2 stable_cross_entropy case_prod_unfold mult.commute)
    finally show ?thesis by simp
  qed
  have np: "sum_list (concat (map (map (\<lambda>v. if v = 0 then 0 else 1)) (cast_float weights)))
      = real (length (filter (\<lambda>w. w \<noteq> 0) (concat weights)))"
  proof -
    have "concat (map (map (\<lambda>v::real. if v = 0 then 0 else (1::real))) (cast_float weights))
        = map (\<lambda>w. if w \<noteq> 0 then 1 else 0) (concat weights)"
      by (simp add: cast_float_def concat_map_map comp_def)
    then show ?thesis by (simp only: sum_indicator)
  qed
  show ?thesis
    using l by (simp add: sigmoid_cross_entropy_def cong2_sym b bind_err_def tot np
        weighted_loss_def Let_def del: of_nat_eq_0_iff)
qed

lemma accuracy_call_eq:
  assumes l: "cong2 labels logits"
  shows "accuracy_call m (map (map cast_int32) (map (map (\<lambda>x. tf_round (sigmoid x))) logits)) labels
     = Inr (Some \<lparr>numer = numer (build m) + real (agreements labels logits),
                 denom = denom (build m) + real (length (concat labels))\<rparr>)"
proof -
  let ?p = "map (map cast_int32) (map (map (\<lambda>x. tf_round (sigmoid x))) logits)"
  have p: "?p = map (map binarize) logits" by (simp add: prediction_binarize comp_def)
  have c: "cong2 ?p labels" using l unfolding p by (simp add: cong2_map cong2_sym)
  have v: "concat (map2 (map2 (\<lambda>a b. if a = b then 1 else 0)) ?p labels)
      = map (\<lambda>(z, x). if binarize x = z then (1::real) else 0) (entries labels logits)"
  proof -
    have "concat (map2 (map2 (\<lambda>a b. if a = b then 1 else (0::real))) ?p labels)
        = map2 (\<lambda>a b. if a = b then 1 else 0) (concat ?p) (concat labels)"
      using c by (rule concat_map2)
    also have "concat ?p = map binarize (concat logits)" unfolding p by (rule concat_map_map)
    finally show ?thesis
      unfolding entries_def
      by (simp add: zip_map1 case_prod_unfold)
         (simp add: zip_commute [of "concat logits"] case_prod_unfold)
  qed
  have s: "sum_list (map (\<lambda>(z, x). if binarize x = z then (1::real) else 0) (entries labels logits))
      = real (agreements labels logits)"
    unfolding agreements_def
    using sum_indicator [of "\<lambda>(z, x). binarize x = z" "entries labels logits"]
    by (simp add: case_prod_unfold)
  have n: "length (entries labels logits) = length (concat labels)"
    using cong2_length_concat [OF l] by (simp add: entries_def)
  have "accuracy_call m ?p labels
      = Inr (mean_call m (concat (map2 (map2 (\<lambda>a b. if a = b then 1 else 0)) ?p labels)))"
    using c by (simp only: accuracy_call_def simp_thms if_False)
  also have "\<dots> = Inr (mean_call m
      (map (\<lambda>(z, x). if binarize x = z then (1::real) else 0) (entries labels logits)))"
    by (simp only: v)
  also have "\<dots> = Inr (Some \<lparr>numer = numer (build m) + real (agreements labels logits),
            denom = denom (build m) + real (length (concat labels))\<rparr>)"
    by (simp only: mean_call_def Let_def s length_map n)
  finally show ?thesis .
qed

lemma batch_ok_simp:
  "batch_ok model (images, labels, weights) \<longleftrightarrow>
     cong2 labels (model images False) \<and> cong2 weights (model images False)"
  by (simp add: batch_ok_def)

lemma build_Some: "build (Some v) = v"
  by (simp add: build_def)

lemma test_loop_eq:
  "list_all (batch_ok model) dataset \<Longrightarrow> dataset \<noteq> [] \<Longrightarrow>
   test_loop model dataset ml ma =
     Inr (Some \<lparr>numer = numer (build ml) + (\<Sum>b\<leftarrow>dataset. batch_loss model b),
                 denom = denom (build ml) + real (length dataset)\<rparr>,
          Some \<lparr>numer = numer (build ma) + real (\<Sum>b\<leftarrow>dataset. batch_agreements model b),
                 denom = denom (build ma) + real (\<Sum>b\<leftarrow>dataset. batch_entries b)\<rparr>)"
proof (induction dataset arbitrary: ml ma)
  case Nil
  then show ?case by simp
next
  case (Cons b dataset)
  obtain images labels weights where b: "b = (images, labels, weights)" by (cases b)
  from Cons.prems have ok: "cong2 labels (model images False)" "cong2 weights (model images False)"
    and rest: "list_all (batch_ok model) dataset"
    by (simp_all add: b batch_ok_simp)
  note l = sigmoid_cross_entropy_eq [OF ok]
  note a = accuracy_call_eq [OF ok(1)]
  show ?case
  proof (cases "dataset = []")
    case True
    show ?thesis
      unfolding b test_loop.simps Let_def l a bind_err_def sum.case True
      by (simp add: mean_call_def Let_def batch_loss_def batch_agreements_def batch_entries_def)
  next
    case False
    show ?thesis
      unfolding b test_loop.simps Let_def l a bind_err_def sum.case
      by (simp add: Cons.IH [OF rest False] mean_call_def Let_def build_Some batch_loss_def
          batch_agreements_def batch_entries_def algebra_simps)
  qed
qed

lemma test_eq:
  assumes "list_all (batch_ok model) dataset"
  shows "test model dataset =
     (if dataset = [] then Inl AttributeError
      else Inr (Some ((\<Sum>b\<leftarrow>dataset. batch_loss model b) / real (length dataset)),
                if (\<Sum>b\<leftarrow>dataset. batch_entries b) = 0 then None
                else Some (real (\<Sum>b\<leftarrow>dataset. batch_agreements model b)
                           / real (\<Sum>b\<leftarrow>dataset. batch_entries b))))"
proof (cases "dataset = []")
  case True
  then show ?thesis
    by (simp add: test_def Mean_def Accuracy_def result_def bind_err_def)
next
  case False
  then have "0 < length dataset" by simp
  then show ?thesis
    using False
    by (simp add: test_def test_loop_eq [OF assms False] Mean_def Accuracy_def result_def
        bind_err_def build_def)
qed

text \<open>
  Claim C3. For every batch of the evaluation dataset \<open>test\<close> runs the model with training
  disabled, takes the sigmoid cross-entropy of labels and logits weighted by the weights,
  binarises the logits (sigmoid, then the nearest of 0 and 1) and accumulates both; it
  returns the mean of the batch losses and the share of the label entries, over all
  examples and classes, that the binarised prediction matches. For a dataset without a
  batch nothing was accumulated and reading the results raises.
\<close>
theorem test_returns_mean_loss_and_accuracy:
  assumes "list_all (batch_ok model) dataset"
  shows "test model dataset =
     (if dataset = [] then Inl AttributeError
      else Inr (Some ((\<Sum>b\<leftarrow>dataset. batch_loss model b) / real (length dataset)),
                if (\<Sum>b\<leftarrow>dataset. batch_entries b) = 0 then None
                else Some (real (\<Sum>b\<leftarrow>dataset. batch_agreements model b)
                           / real (\<Sum>b\<leftarrow>dataset. batch_entries b))))"
  using assms by (rule test_eq)

lemma binarize_iff: "binarize x = (if 0 < x then 1 else 0)"
  unfolding binarize_def sigmoid_gt_half_iff ..

lemma cross_entropy_at_zero: "cross_entropy z 0 = ln 2"
  by (simp add: cross_entropy_def sigmoid_def ln_div algebra_simps)

theorem test_returns_mean_loss_and_accuracy_witness:
  "test pixel_model [batch_e, batch_b]
     = Inr (Some (((cross_entropy 1 1 + cross_entropy 0 1 + cross_entropy 0 (- 1)) / 3
                   + (ln 2 + cross_entropy 1 1) / 2) / 2),
            Some (2/3))
   \<and> test pixel_model [] = Inl AttributeError"
proof -
  have ok: "list_all (batch_ok pixel_model) [batch_e, batch_b]"
    by (simp add: batch_ok_def batch_e_def batch_b_def pixel_model_def cong2_def cong1_def)
  have l: "batch_loss pixel_model batch_e
      = (cross_entropy 1 1 + cross_entropy 0 1 + cross_entropy 0 (- 1)) / 3"
    "batch_loss pixel_model batch_b = (ln 2 + cross_entropy 1 1) / 2"
    by (simp_all add: batch_loss_def batch_e_def batch_b_def pixel_model_def weighted_loss_def
        entries_def cross_entropy_at_zero)
  have a: "batch_agreements pixel_model batch_e = 3" "batch_agreements pixel_model batch_b = 1"
    by (simp_all add: batch_agreements_def batch_e_def batch_b_def pixel_model_def agreements_def
        entries_def binarize_iff)
  have e: "batch_entries batch_e = 4" "batch_entries batch_b = 2"
    by (simp_all add: batch_entries_def batch_e_def batch_b_def)
  have 1: "test pixel_model [batch_e, batch_b]
     = Inr (Some (((cross_entropy 1 1 + cross_entropy 0 1 + cross_entropy 0 (- 1)) / 3
                   + (ln 2 + cross_entropy 1 1) / 2) / 2),
            Some (2/3))"
    using test_returns_mean_loss_and_accuracy [OF ok] by (simp add: l a e)
  have 2: "test pixel_model [] = Inl AttributeError"
    using test_returns_mean_loss_and_accuracy [of pixel_model "[]"] by simp
  from 1 2 show ?thesis by simp
qed

lemma cross_entropy_one_one: "cross_entropy 1 1 = ln (1 + exp (- 1))"
  by (simp add: cross_entropy_def ln_sigmoid)

lemma cross_entropy_one_one_less: "cross_entropy 1 1 < ln 2"
proof -
  have "exp (- 1 :: real) < exp 0" by (simp only: exp_less_cancel_iff)
  then have "1 + exp (- 1 :: real) < 2" by simp
  moreover have "0 < 1 + exp (- 1 :: real)" using exp_gt_zero [of "- 1 :: real"] by linarith
  ultimately have "ln (1 + exp (- 1 :: real)) < ln 2" by (simp only: ln_less_cancel_iff) 
  then show ?thesis by (simp only: cross_entropy_one_one)
qed


lemma batch_loss_weighted_sum:
  "batch_loss model b = (if present b = 0 then 0 else weighted_sum model b / real (present b))"
  by (cases b) (simp add: batch_loss_def weighted_loss_def present_def weighted_sum_def Let_def)

lemma dataset_concat:
  assumes "list_all (batch_ok model) dataset"
  shows "zip (entries (concat (map (\<lambda>(images, labels, weights). labels) dataset))
                (concat (map (\<lambda>(images, labels, weights). model images False) dataset)))
             (concat (concat (map (\<lambda>(images, labels, weights). weights) dataset)))
       = concat (map (\<lambda>(images, labels, weights).
            zip (entries labels (model images False)) (concat weights)) dataset)"
  using assms
proof (induction dataset)
  case Nil
  then show ?case by (simp add: entries_def)
next
  case (Cons b dataset)
  obtain images labels weights where b: "b = (images, labels, weights)" by (cases b)
  from Cons.prems have ok: "cong2 labels (model images False)" "cong2 weights (model images False)"
    and rest: "list_all (batch_ok model) dataset"
    by (simp_all add: b batch_ok_simp)
  have l1: "length (concat labels) = length (concat (model images False))"
    using ok(1) by (rule cong2_length_concat)
  have l2: "length (concat weights) = length (concat (model images False))"
    using ok(2) by (rule cong2_length_concat)
  show ?case
    using Cons.IH [OF rest] by (simp add: b entries_def l1 l2)
qed

lemma dataset_loss_weighted_sum:
  assumes "list_all (batch_ok model) dataset"
  shows "dataset_loss model dataset =
     (if (\<Sum>b\<leftarrow>dataset. present b) = 0 then 0
      else (\<Sum>b\<leftarrow>dataset. weighted_sum model b) / real (\<Sum>b\<leftarrow>dataset. present b))"
proof -
  have p: "length (filter (\<lambda>w. w \<noteq> 0)
        (concat (concat (map (\<lambda>(images, labels, weights). weights) dataset))))
      = (\<Sum>b\<leftarrow>dataset. present b)"
    by (induction dataset) (auto simp: present_def)
  have s: "sum_list (map (\<lambda>((z, x), w). of_int w * cross_entropy (of_int z) x)
        (concat (map (\<lambda>(images, labels, weights).
            zip (entries labels (model images False)) (concat weights)) dataset)))
      = (\<Sum>b\<leftarrow>dataset. weighted_sum model b)"
    by (induction dataset) (auto simp: weighted_sum_def)
  show ?thesis
    unfolding dataset_loss_def weighted_loss_def Let_def p dataset_concat [OF assms] s ..
qed

lemma equal_present_mean:
  assumes "0 < n" and "list_all (\<lambda>b. present b = n) dataset" and "dataset \<noteq> []"
  shows "(\<Sum>b\<leftarrow>dataset. batch_loss model b) / real (length dataset)
       = (\<Sum>b\<leftarrow>dataset. weighted_sum model b) / real (\<Sum>b\<leftarrow>dataset. present b)"
proof -
  have a: "(\<Sum>b\<leftarrow>dataset. batch_loss model b) = (\<Sum>b\<leftarrow>dataset. weighted_sum model b) / real n"
    using assms(2,1) by (induction dataset) (simp_all add: batch_loss_weighted_sum add_divide_distrib)
  have b: "(\<Sum>b\<leftarrow>dataset. present b) = n * length dataset"
    using assms(2) by (induction dataset) simp_all
  show ?thesis using assms(1,3) by (simp add: a b)
qed

lemma full_batch_present: "full_batch n k b \<Longrightarrow> present b = n * k"
proof -
  have r: "list_all (\<lambda>w. w \<noteq> 0) r \<Longrightarrow> filter (\<lambda>w. w \<noteq> 0) r = r" for r :: "int list"
    by (induction r) simp_all
  have c: "list_all (list_all (\<lambda>w. w \<noteq> 0)) ws \<Longrightarrow> filter (\<lambda>w. w \<noteq> 0) (concat ws) = concat ws"
    for ws :: "int list list"
    by (induction ws) (simp_all add: r)
  have l: "list_all (\<lambda>r. length r = k) ws \<Longrightarrow> length (concat ws) = length ws * k"
    for ws :: "int list list"
    by (induction ws) simp_all
  assume "full_batch n k b"
  then show ?thesis
    by (cases b) (auto simp: full_batch_def present_def has_shape2_def c l)
qed

lemma mean_eq_dataset_loss:
  assumes ok: "list_all (batch_ok model) dataset" and ne: "dataset \<noteq> []"
    and n: "0 < n" and p: "list_all (\<lambda>b. present b = n) dataset"
  shows "(\<Sum>b\<leftarrow>dataset. batch_loss model b) / real (length dataset) = dataset_loss model dataset"
proof -
  have "(\<Sum>b\<leftarrow>dataset. present b) = n * length dataset"
    using p by (induction dataset) simp_all
  then have "(\<Sum>b\<leftarrow>dataset. present b) \<noteq> 0" using n ne by simp
  then show ?thesis
    by (simp only: dataset_loss_weighted_sum [OF ok] equal_present_mean [OF n p ne] if_False)
qed

lemma example_batch_losses:
  "batch_loss pixel_model batch_a = ln 2"
  "batch_loss pixel_model batch_b = (ln 2 + cross_entropy 1 1) / 2"
  "batch_loss pixel_model batch_c = ln 2"
  "batch_loss pixel_model batch_d = ln 2"
  by (simp_all add: batch_loss_def batch_a_def batch_b_def batch_c_def batch_d_def
      pixel_model_def weighted_loss_def entries_def cross_entropy_at_zero)

lemma example_ok:
  "batch_ok pixel_model batch_a" "batch_ok pixel_model batch_b"
  "batch_ok pixel_model batch_c" "batch_ok pixel_model batch_d"
  by (simp_all add: batch_ok_def batch_a_def batch_b_def batch_c_def batch_d_def
      pixel_model_def cong2_def cong1_def)

lemma example_dataset_losses:
  "dataset_loss pixel_model [batch_a, batch_b] = (2 * ln 2 + cross_entropy 1 1) / 3"
  "dataset_loss pixel_model [batch_c, batch_b] = (5 * ln 2 + cross_entropy 1 1) / 6"
  by (simp_all add: dataset_loss_def batch_a_def batch_b_def batch_c_def
      pixel_model_def weighted_loss_def entries_def cross_entropy_at_zero)

lemma x_loss: "batch_loss pixel_model batch_x = (2 * ln 2 + cross_entropy 1 1) / 3"
  by (simp add: batch_loss_def batch_x_def pixel_model_def weighted_loss_def entries_def
      cross_entropy_at_zero)

lemma x_ok: "batch_ok pixel_model batch_x"
  by (simp add: batch_ok_def batch_x_def pixel_model_def cong2_def cong1_def)

lemma x_dataset: "dataset_loss pixel_model [batch_x, batch_c] = (6 * ln 2 + cross_entropy 1 1) / 7"
  by (simp add: dataset_loss_def batch_x_def batch_c_def
      pixel_model_def weighted_loss_def entries_def cross_entropy_at_zero)

lemma x_examples: "mean_example_loss pixel_model [batch_x, batch_c] = (3 * ln 2 + cross_entropy 1 1) / 4"
  by (simp add: mean_example_loss_def example_losses_def batch_x_def batch_c_def
      pixel_model_def weighted_loss_def entries_def cross_entropy_at_zero)

text \<open>
  Claim C10 says that the returned loss and the mean loss over all examples coincide when
  every batch has the same size. The batch loss divides by the number of entries whose
  weight is not zero, so for two batches of two examples each, one of them with a masked
  entry, the returned loss differs both from the loss of the whole dataset taken as one
  batch and from the mean of the losses of the single examples.
\<close>
theorem equal_batch_sizes_counterexample:
  "length (fst (snd batch_x)) = 2 \<and> length (fst (snd batch_c)) = 2
   \<and> test pixel_model [batch_x, batch_c]
       = Inr (Some ((5 * ln 2 + cross_entropy 1 1) / 6), Some (5/8))
   \<and> dataset_loss pixel_model [batch_x, batch_c] = (6 * ln 2 + cross_entropy 1 1) / 7
   \<and> mean_example_loss pixel_model [batch_x, batch_c] = (3 * ln 2 + cross_entropy 1 1) / 4
   \<and> (5 * ln 2 + cross_entropy 1 1) / 6 \<noteq> (6 * ln 2 + cross_entropy 1 1) / 7
   \<and> (5 * ln 2 + cross_entropy 1 1) / 6 \<noteq> (3 * ln 2 + cross_entropy 1 1) / 4"
proof -
  have ok: "list_all (batch_ok pixel_model) [batch_x, batch_c]" by (simp add: example_ok x_ok)
  have a: "batch_agreements pixel_model batch_x = 3" "batch_agreements pixel_model batch_c = 2"
    by (simp_all add: batch_agreements_def batch_x_def batch_c_def pixel_model_def agreements_def
        entries_def binarize_iff)
  have e: "batch_entries batch_x = 4" "batch_entries batch_c = 4"
    by (simp_all add: batch_entries_def batch_x_def batch_c_def)
  have t: "test pixel_model [batch_x, batch_c]
       = Inr (Some ((5 * ln 2 + cross_entropy 1 1) / 6), Some (5/8))"
    by (simp add: test_eq [OF ok] example_batch_losses x_loss a e field_simps)
  have s: "length (fst (snd batch_x)) = 2 \<and> length (fst (snd batch_c)) = 2"
    by (simp add: batch_x_def batch_c_def)
  have n: "(5 * ln 2 + cross_entropy 1 1) / 6 \<noteq> (6 * ln 2 + cross_entropy 1 1) / 7"
    "(5 * ln 2 + cross_entropy 1 1) / 6 \<noteq> (3 * ln 2 + cross_entropy 1 1) / 4"
    using cross_entropy_one_one_less by (simp_all add: field_simps)
  show ?thesis using t s n x_dataset x_examples by simp
qed

lemma row_loss_full:
  assumes "list_all (\<lambda>v. v \<noteq> 0) w" and "length w = k" and "0 < k"
  shows "weighted_loss [z] [x] [w]
       = (\<Sum>((a, b), v) \<leftarrow> zip (zip z x) w. of_int v * cross_entropy (of_int a) b) / real k"
proof -
  have "filter (\<lambda>v. v \<noteq> 0) w = w" using assms(1) by (induction w) simp_all
  then show ?thesis using assms(2,3) by (simp add: weighted_loss_def entries_def Let_def)
qed

lemma sum_list_div: "(\<Sum>x\<leftarrow>xs. f x / c) = (\<Sum>x\<leftarrow>xs. f x) / (c::real)"
  by (induction xs) (simp_all add: add_divide_distrib)

lemma rows_sum:
  assumes "list_all2 (\<lambda>z x. length z = length x) labels logits"
    and "list_all2 (\<lambda>w x. length w = length x) weights logits"
  shows "(\<Sum>(z, x, w) \<leftarrow> zip labels (zip logits weights).
            (\<Sum>((a, b), v) \<leftarrow> zip (zip z x) w. of_int v * cross_entropy (of_int a) b))
       = (\<Sum>((a, b), v) \<leftarrow> zip (zip (concat labels) (concat logits)) (concat weights).
            of_int v * cross_entropy (of_int a) b)"
  using assms
proof (induction labels logits arbitrary: weights rule: list_all2_induct)
  case Nil
  then show ?case by simp
next
  case (Cons z labels x logits)
  from Cons.prems obtain w ws where w: "weights = w # ws" "length w = length x"
    "list_all2 (\<lambda>w x. length w = length x) ws logits"
    by (cases weights) auto
  show ?case
    using Cons.IH [OF w(3)] Cons.hyps(1) w(2) by (simp add: w(1))
qed

lemma rows_sum_cong:
  assumes "cong2 labels logits" and "cong2 weights logits"
  shows "(\<Sum>(z, x, w) \<leftarrow> zip labels (zip logits weights).
            (\<Sum>((a, b), v) \<leftarrow> zip (zip z x) w. of_int v * cross_entropy (of_int a) b))
       = (\<Sum>((a, b), v) \<leftarrow> zip (zip (concat labels) (concat logits)) (concat weights).
            of_int v * cross_entropy (of_int a) b)"
  using assms unfolding cong2_def cong1_def by (rule rows_sum)

lemma full_batch_example_losses:
  assumes ok: "batch_ok model b" and f: "full_batch m k b" and k: "0 < k"
  shows "length (example_losses model b) = m"
    and "sum_list (example_losses model b) = weighted_sum model b / real k"
proof -
  obtain images labels weights where b: "b = (images, labels, weights)" by (cases b)
  from ok have c: "cong2 labels (model images False)" "cong2 weights (model images False)"
    by (simp_all add: b batch_ok_simp)
  from f have sh: "length weights = m" "list_all (\<lambda>r. length r = k) weights"
    and nz: "list_all (list_all (\<lambda>v. v \<noteq> 0)) weights"
    by (simp_all add: b full_batch_def has_shape2_def)
  have l: "length labels = length (model images False)" "length weights = length (model images False)"
    using c by (simp_all add: cong2_def list_all2_lengthD)
  show "length (example_losses model b) = m"
    using l sh(1) by (simp add: example_losses_def b)
  have row: "weighted_loss [z] [x] [w]
       = (\<Sum>((a, b), v) \<leftarrow> zip (zip z x) w. of_int v * cross_entropy (of_int a) b) / real k"
    if "(z, x, w) \<in> set (zip labels (zip (model images False) weights))" for z x w
  proof -
    from that have "w \<in> set weights" by (meson set_zip_rightD)
    then have "list_all (\<lambda>v. v \<noteq> 0) w" "length w = k"
      using nz sh(2) by (simp_all add: list_all_iff)
    then show ?thesis using k by (rule row_loss_full)
  qed
  have "sum_list (example_losses model b)
      = (\<Sum>(z, x, w) \<leftarrow> zip labels (zip (model images False) weights).
            (\<Sum>((a, b), v) \<leftarrow> zip (zip z x) w. of_int v * cross_entropy (of_int a) b) / real k)"
    unfolding example_losses_def b prod.case
    by (rule arg_cong [where f = sum_list], rule map_cong [OF refl]) (auto simp: row)
  also have "\<dots> = (\<Sum>(z, x, w) \<leftarrow> zip labels (zip (model images False) weights).
            (\<Sum>((a, b), v) \<leftarrow> zip (zip z x) w. of_int v * cross_entropy (of_int a) b)) / real k"
    using sum_list_div [of "\<lambda>(z, x, w). (\<Sum>((a, b), v) \<leftarrow> zip (zip z x) w. of_int v * cross_entropy (of_int a) b)"
        "real k" "zip labels (zip (model images False) weights)"]
    by (simp add: case_prod_unfold)
  also have "\<dots> = weighted_sum model b / real k"
    using rows_sum_cong [OF c]
    by (simp add: weighted_sum_def b entries_def)
  finally show "sum_list (example_losses model b) = weighted_sum model b / real k" .
qed

lemma full_batch_loss:
  assumes f: "full_batch m k b" and mk: "0 < m * k"
  shows "batch_loss model b = weighted_sum model b / real (m * k)"
  using full_batch_present [OF f] mk by (simp add: batch_loss_weighted_sum)

lemma full_batches_example_mean:
  assumes ok: "list_all (batch_ok model) dataset" and f: "list_all (full_batch m k) dataset"
    and mk: "0 < m * k" and ne: "dataset \<noteq> []"
  shows "(\<Sum>b\<leftarrow>dataset. batch_loss model b) / real (length dataset) = mean_example_loss model dataset"
proof -
  have k: "0 < k" and m: "0 < m" using mk by simp_all
  have len: "length (concat (map (example_losses model) dataset)) = m * length dataset"
    using ok f by (induction dataset) (simp_all add: full_batch_example_losses(1) [OF _ _ k])
  have s: "sum_list (concat (map (example_losses model) dataset))
      = real m * (\<Sum>b\<leftarrow>dataset. batch_loss model b)"
    using ok f
  proof (induction dataset)
    case Nil
    then show ?case by simp
  next
    case (Cons b dataset)
    then have b: "batch_ok model b" "full_batch m k b" by simp_all
    have "sum_list (example_losses model b) = real m * batch_loss model b"
      using m k by (simp add: full_batch_example_losses(2) [OF b k] full_batch_loss [OF b(2) mk])
    then show ?case using Cons by (simp add: algebra_simps)
  qed
  show ?thesis
    using m ne by (simp add: mean_example_loss_def Let_def len s)
qed

text \<open>
  Claim C10, amended. The loss returned by \<open>test\<close> is the unweighted arithmetic mean of the
  batch losses, every batch counting once whatever its size. It coincides with the loss of
  the whole dataset taken as one batch when every batch has the same number of entries
  with a weight that is not zero; when the batches have one size and no weight is zero it
  also is the mean of the losses of the single examples. For batches of different sizes it
  differs in general, as for a batch of two and a batch of one example.
\<close>
theorem test_loss_mean_of_batch_losses:
  assumes "list_all (batch_ok model) dataset" and "dataset \<noteq> []"
  shows "(\<exists>accuracy. test model dataset =
            Inr (Some ((\<Sum>b\<leftarrow>dataset. batch_loss model b) / real (length dataset)), accuracy))
       \<and> (0 < n \<and> list_all (\<lambda>b. present b = n) dataset \<longrightarrow>
            (\<Sum>b\<leftarrow>dataset. batch_loss model b) / real (length dataset) = dataset_loss model dataset)
       \<and> (0 < m * k \<and> list_all (full_batch m k) dataset \<longrightarrow>
            (\<Sum>b\<leftarrow>dataset. batch_loss model b) / real (length dataset) = dataset_loss model dataset
            \<and> (\<Sum>b\<leftarrow>dataset. batch_loss model b) / real (length dataset) = mean_example_loss model dataset)
       \<and> (\<Sum>b\<leftarrow>[batch_c, batch_b]. batch_loss pixel_model b) / real (length [batch_c, batch_b])
            \<noteq> dataset_loss pixel_model [batch_c, batch_b]"
proof (intro conjI impI)
  show "\<exists>accuracy. test model dataset =
            Inr (Some ((\<Sum>b\<leftarrow>dataset. batch_loss model b) / real (length dataset)), accuracy)"
    using assms(2) by (simp add: test_eq [OF assms(1)])
next
  assume "0 < n \<and> list_all (\<lambda>b. present b = n) dataset"
  then have "0 < n" "list_all (\<lambda>b. present b = n) dataset" by simp_all
  with assms show "(\<Sum>b\<leftarrow>dataset. batch_loss model b) / real (length dataset) = dataset_loss model dataset"
    by (rule mean_eq_dataset_loss)
next
  assume a: "0 < m * k \<and> list_all (full_batch m k) dataset"
  then have "list_all (\<lambda>b. present b = m * k) dataset"
    by (simp add: list_all_iff full_batch_present)
  moreover from a have "0 < m * k" by simp
  ultimately show "(\<Sum>b\<leftarrow>dataset. batch_loss model b) / real (length dataset) = dataset_loss model dataset"
    using assms by (intro mean_eq_dataset_loss [where n = "m * k"])
next
  assume a: "0 < m * k \<and> list_all (full_batch m k) dataset"
  then have "list_all (full_batch m k) dataset" "0 < m * k" by simp_all
  with assms(1) show "(\<Sum>b\<leftarrow>dataset. batch_loss model b) / real (length dataset) = mean_example_loss model dataset"
    using assms(2) by (rule full_batches_example_mean)
next
  show "(\<Sum>b\<leftarrow>[batch_c, batch_b]. batch_loss pixel_model b) / real (length [batch_c, batch_b])
            \<noteq> dataset_loss pixel_model [batch_c, batch_b]"
    using cross_entropy_one_one_less
    by (simp add: example_batch_losses example_dataset_losses field_simps)
qed

theorem test_loss_mean_of_batch_losses_witness:
  "(\<exists>accuracy. test pixel_model [batch_d, batch_b]
       = Inr (Some ((3 * ln 2 + cross_entropy 1 1) / 4), accuracy))
   \<and> dataset_loss pixel_model [batch_d, batch_b] = (3 * ln 2 + cross_entropy 1 1) / 4
   \<and> (\<exists>accuracy. test pixel_model [batch_c, batch_c] = Inr (Some (ln 2), accuracy))
   \<and> dataset_loss pixel_model [batch_c, batch_c] = ln 2
   \<and> mean_example_loss pixel_model [batch_c, batch_c] = ln 2"
proof -
  have ok: "list_all (batch_ok pixel_model) [batch_d, batch_b]"
    "list_all (batch_ok pixel_model) [batch_c, batch_c]" by (simp_all add: example_ok)
  have p: "0 < (2::nat) \<and> list_all (\<lambda>b. present b = 2) [batch_d, batch_b]"
    by (simp add: present_def batch_d_def batch_b_def)
  have f: "0 < (2::nat) * 2 \<and> list_all (full_batch 2 2) [batch_c, batch_c]"
    by (simp add: full_batch_def has_shape2_def batch_c_def)
  have ne: "[batch_d, batch_b] \<noteq> []" "[batch_c, batch_c] \<noteq> []" by simp_all
  have v: "(\<Sum>b\<leftarrow>[batch_d, batch_b]. batch_loss pixel_model b) / real (length [batch_d, batch_b])
      = (3 * ln 2 + cross_entropy 1 1) / 4"
    "(\<Sum>b\<leftarrow>[batch_c, batch_c]. batch_loss pixel_model b) / real (length [batch_c, batch_c]) = ln 2"
    by (simp_all add: example_batch_losses field_simps)
  note t1 = test_loss_mean_of_batch_losses [OF ok(1) ne(1), of 2 0 0, unfolded v]
  note t2 = test_loss_mean_of_batch_losses [OF ok(2) ne(2), of 0 2 2, unfolded v]
  from t1 p have 1: "(\<exists>accuracy. test pixel_model [batch_d, batch_b]
       = Inr (Some ((3 * ln 2 + cross_entropy 1 1) / 4), accuracy))
     \<and> dataset_loss pixel_model [batch_d, batch_b] = (3 * ln 2 + cross_entropy 1 1) / 4"
    by metis
  from t2 f have 2: "(\<exists>accuracy. test pixel_model [batch_c, batch_c] = Inr (Some (ln 2), accuracy))
     \<and> dataset_loss pixel_model [batch_c, batch_c] = ln 2
     \<and> mean_example_loss pixel_model [batch_c, batch_c] = ln 2"
    by metis
  from 1 2 show ?thesis by blast
qed

section \<open>Properties of the network\<close>

text \<open>
  Claim C9. The constructor's default is 10 classes, not the 20 of the class catalogue;
  \<^verbatim>\<open>main\<close> passes the length of the catalogue, so its logits are 20 wide, where the
  default would give 10; and \<^verbatim>\<open>compute_output_shape\<close> reports the batch dimension and
  the number of classes given at construction.
\<close>
theorem caffenet_num_classes:
  "num_classes (CaffeNet_init None) = 10
   \<and> length CLASS_NAMES = 20
   \<and> main_model = CaffeNet_init (Some (length CLASS_NAMES))
   \<and> num_classes main_model = 20
   \<and> call_shape main_model [b, 224, 224, 3] training = Inr [b, 20]
   \<and> call_shape (CaffeNet_init None) [b, 224, 224, 3] training = Inr [b, 10]
   \<and> call_shape (CaffeNet_init (Some n)) [b, 224, 224, 3] training = Inr [b, n]
   \<and> compute_output_shape (CaffeNet_init (Some n)) (d # rest) = Inr [d, Some n]
   \<and> compute_output_shape (CaffeNet_init None) (d # rest) = Inr [d, Some 10]
   \<and> compute_output_shape main_model (d # rest) = Inr [d, Some 20]"
  by (simp add: CaffeNet_init_def CLASS_NAMES_def main_model_def call_shape_def window_def
      compute_output_shape_def bind_err_def Let_def)

section \<open>Properties of the training loop\<close>

lemma milestones_append: "milestones (xs @ ys) = milestones xs @ milestones ys"
  by (simp add: milestones_def)

lemma updates_append: "updates (xs @ ys) = updates xs @ updates ys"
  by (simp add: updates_def List.map_filter_def)

lemma updates_simps:
  "updates [] = []"
  "updates (ApplyGradients s r # es) = (s, r) # updates es"
  "updates (TrainingLog s r # es) = updates es"
  "updates (Evaluate s # es) = updates es"
  "updates (Save ep c # es) = updates es"
  by (simp_all add: updates_def map_filter_simps)

lemma milestones_simps:
  "milestones [] = []"
  "milestones (ApplyGradients s r # es) = ApplyGradients s r # milestones es"
  "milestones (TrainingLog s r # es) = milestones es"
  "milestones (Evaluate s # es) = milestones es"
  "milestones (Save ep c # es) = Save ep c # milestones es"
  by (simp_all add: milestones_def milestone_def)

lemma train_batch_step:
  "global_step (train_batch a opt b st) = global_step st + 1"
  "milestones (trace (train_batch a opt b st))
     = milestones (trace st) @ [ApplyGradients (global_step st) (learning_rate opt)]"
  "updates (trace (train_batch a opt b st))
     = updates (trace st) @ [(global_step st, learning_rate opt)]"
  by (simp_all add: train_batch_def emit_def Let_def milestones_append milestones_simps
      updates_append updates_simps)

lemma fold_train_batch:
  "global_step (fold (train_batch a opt) ds st) = global_step st + length ds
   \<and> milestones (trace (fold (train_batch a opt) ds st))
     = milestones (trace st)
       @ map (\<lambda>s. ApplyGradients s (learning_rate opt)) [global_step st..<global_step st + length ds]
   \<and> updates (trace (fold (train_batch a opt) ds st))
     = updates (trace st)
       @ map (\<lambda>s. (s, learning_rate opt)) [global_step st..<global_step st + length ds]"
proof (induction ds arbitrary: st)
  case Nil
  then show ?case by simp
next
  case (Cons b ds)
  have u: "[global_step st..<global_step st + length (b # ds)]
      = global_step st # [global_step st + 1..<global_step st + 1 + length ds]"
    by (simp add: upt_conv_Cons del: upt_Suc)
  show ?case
    using Cons.IH [of "train_batch a opt b st"]
    unfolding u by (simp add: train_batch_step del: upt_Suc)
qed

lemma train_epoch_step:
  "global_step (train_epoch a opt ds ep st) = global_step st + length ds"
  "milestones (trace (train_epoch a opt ds ep st))
     = milestones (trace st)
       @ map (\<lambda>s. ApplyGradients s (learning_rate opt)) [global_step st..<global_step st + length ds]
       @ (if ep mod 2 = 0 then [Save ep [Optimizer, Model]] else [])"
  "updates (trace (train_epoch a opt ds ep st))
     = updates (trace st)
       @ map (\<lambda>s. (s, learning_rate opt)) [global_step st..<global_step st + length ds]"
  using fold_train_batch [of a opt ds st]
  by (simp_all add: train_epoch_def Let_def emit_def milestones_append milestones_simps
      updates_append updates_simps root_def)

lemma fold_train_epoch:
  "global_step (fold (train_epoch a opt ds) [0..<e] \<lparr>global_step = 0, trace = []\<rparr>)
     = e * length ds
   \<and> milestones (trace (fold (train_epoch a opt ds) [0..<e] \<lparr>global_step = 0, trace = []\<rparr>))
     = concat (map (epoch_milestones (\<lambda>s. learning_rate opt) (\<lambda>ep. ep mod 2 = 0) (length ds)) [0..<e])
   \<and> updates (trace (fold (train_epoch a opt ds) [0..<e] \<lparr>global_step = 0, trace = []\<rparr>))
     = map (\<lambda>s. (s, learning_rate opt)) [0..<e * length ds]"
proof (induction e)
  case 0
  then show ?case by (simp add: milestones_simps updates_simps)
next
  case (Suc e)
  have u: "[0..<length ds + e * length ds] = [0..<e * length ds] @ [e * length ds..<e * length ds + length ds]"
    by (metis add.commute le_add1 upt_add_eq_append zero_le) 
  show ?case
    using Suc by (simp add: train_epoch_step epoch_milestones_def u)
qed

lemma train_eq:
  "global_step (train a ds) = nat (epochs a) * length ds"
  "milestones (trace (train a ds))
     = concat (map (epoch_milestones (\<lambda>s. lr a) (\<lambda>ep. ep mod 2 = 0) (length ds)) [0..<nat (epochs a)])"
  "updates (trace (train a ds)) = map (\<lambda>s. (s, lr a)) [0..<nat (epochs a) * length ds]"
  using fold_train_epoch [of a "MomentumOptimizer (decayed_lr a 0) (9/10)" ds "nat (epochs a)"]
  by (simp_all add: train_def Let_def MomentumOptimizer_def decayed_lr_def exponential_decay_def)

lemma save_in_trace:
  "Save ep c \<in> set (trace (train a ds)) \<longleftrightarrow>
     ep < nat (epochs a) \<and> ep mod 2 = 0 \<and> c = [Optimizer, Model]"
proof -
  have "Save ep c \<in> set (trace (train a ds)) \<longleftrightarrow> Save ep c \<in> set (milestones (trace (train a ds)))"
    by (simp add: milestones_def milestone_def)
  also have "\<dots> \<longleftrightarrow> ep < nat (epochs a) \<and> ep mod 2 = 0 \<and> c = [Optimizer, Model]"
    unfolding train_eq(2) by (auto simp: epoch_milestones_def)
  finally show ?thesis .
qed

text \<open>
  Claim C7. In a training run the checkpoint, which holds the optimizer and the model, is
  written at the end of every epoch whose index is even (epochs 0, 2, 4, ...), after the
  last parameter update of that epoch and before the first of the next, and at the end of
  no other epoch.
\<close>
theorem checkpoint_every_second_epoch:
  "(\<exists>rate. milestones (trace (train a train_dataset))
     = concat (map (epoch_milestones rate (\<lambda>ep. ep mod 2 = 0) (length train_dataset))
                   [0..<nat (epochs a)]))
   \<and> (Save ep c \<in> set (trace (train a train_dataset)) \<longleftrightarrow>
        ep < nat (epochs a) \<and> ep mod 2 = 0 \<and> c = [Optimizer, Model])"
  using train_eq(2) [of a train_dataset] save_in_trace [of ep c a train_dataset] by blast

text \<open>
  Claim C4 at the default arguments, with 251 batches in an epoch: the update made while
  the step counter is 5000 uses the learning rate 0.001, where the staircase schedule
  (and the value logged as \<^verbatim>\<open>LR\<close>) is 0.0005. The optimizer was given the value of
  \<^verbatim>\<open>decayed_lr()\<close> at step 0. The step counter does advance by one per update.
\<close>
theorem learning_rate_fixed_at_construction:
  "updates (trace (train default_args (replicate 251 batch_a))) ! 5000 = (5000, 1/1000)
   \<and> decayed_lr default_args 5000 = 1/2000
   \<and> lr default_args * (1/2) ^ nat \<lfloor>5000 / 5000 :: real\<rfloor> = 1/2000
   \<and> global_step (train default_args (replicate 251 batch_a)) = 15060"
  by (simp add: train_eq default_args_def decayed_lr_def exponential_decay_def)

section \<open>Properties of the average precision\<close>

lemma labelled_counts:
  assumes b: "list_all (\<lambda>y. y = 0 \<or> y = 1) ys"
  shows "predicted_positives 1 (labelled ys) = positives (labelled ys)"
    and "true_positives 1 (labelled ys) = positives (labelled ys)"
    and "true_positives 0 (labelled ys) = positives (labelled ys)"
  using b
  by (induction ys)
     (auto simp: labelled_def predicted_positives_def true_positives_def positives_def)

lemma labelled_positives: "1 \<in> set ys \<Longrightarrow> 0 < positives (labelled ys)"
proof -
  assume p: "1 \<in> set ys"
  have "positives (labelled ys) = length (filter (\<lambda>y. y = 1) ys)"
    by (simp add: positives_def labelled_def filter_map comp_def)
  moreover have "filter (\<lambda>y. y = 1) ys \<noteq> []"
    using p by (auto simp: filter_empty_conv)
  ultimately show ?thesis by simp
qed

lemma labelled_thresholds:
  assumes b: "list_all (\<lambda>y. y = 0 \<or> y = 1) ys" and p: "1 \<in> set ys"
  shows "thresholds (labelled ys) = [1] \<or> thresholds (labelled ys) = [1, 0]"
proof -
  have s: "set (map fst (labelled ys)) = of_int ` set ys"
    by (simp add: labelled_def image_image)
  have "set ys = {1} \<or> set ys = {0, 1}"
    using b p by (auto simp: list_all_iff)
  then have "set (map fst (labelled ys)) = {1::real} \<or> set (map fst (labelled ys)) = {0, 1::real}"
    unfolding s by auto
  then show ?thesis
    unfolding thresholds_def by auto
qed

lemma labelled_average_precision:
  assumes b: "list_all (\<lambda>y. y = 0 \<or> y = 1) ys" and p: "1 \<in> set ys"
  shows "average_precision (labelled ys) = Some 1"
proof -
  let ?ex = "labelled ys"
  have pos: "0 < positives ?ex" using p by (rule labelled_positives)
  have r1: "recall 1 ?ex = 1" "precision 1 ?ex = 1" "recall 0 ?ex = 1"
    using pos by (simp_all add: recall_def precision_def labelled_counts [OF b])
  have "area ?ex (thresholds ?ex) 0 = 1"
    using labelled_thresholds [OF b p] by (auto simp: r1)
  then show ?thesis using pos by (simp add: average_precision_def)
qed

lemma gt_examples:
  assumes sh: "has_shape2 (n, k) gt" and c: "cid < k"
  shows "class_examples gt (cast_float gt) valid cid
       = labelled (map (\<lambda>i. gt ! i ! cid) (filter (\<lambda>i. valid ! i ! cid \<noteq> 0) [0..<length gt]))"
proof -
  have "cast_float gt ! i ! cid = of_int (gt ! i ! cid)" if "i < length gt" for i
    using that sh c by (simp add: cast_float_def has_shape2_def list_all_length)
  then show ?thesis
    by (simp add: class_examples_def labelled_def)
qed

text \<open>
  Claim C8. With the ground-truth labels as scores, the average precision of every class
  that has a positive example of nonzero weight is 1.
\<close>
theorem ground_truth_scores_perfect:
  assumes "has_shape2 (n, k) test_labels" and "binary test_labels" and "cid < k"
    and "i < n" and "test_weights ! i ! cid \<noteq> 0" and "test_labels ! i ! cid = 1"
  shows "gt_AP test_labels test_weights cid = Some 1"
proof -
  let ?ys = "map (\<lambda>i. test_labels ! i ! cid) (filter (\<lambda>i. test_weights ! i ! cid \<noteq> 0) [0..<length test_labels])"
  have len: "length test_labels = n" and row: "\<And>j. j < n \<Longrightarrow> length (test_labels ! j) = k"
    using assms(1) by (simp_all add: has_shape2_def list_all_length)
  have e: "test_labels ! j ! cid = 0 \<or> test_labels ! j ! cid = 1" if "j < n" for j
    using assms(2,3) row [OF that] len that by (simp add: binary_def list_all_length)
  have b: "list_all (\<lambda>y. y = 0 \<or> y = 1) ?ys"
    using e len by (auto simp: list_all_iff)
  have "i \<in> set (filter (\<lambda>i. test_weights ! i ! cid \<noteq> 0) [0..<length test_labels])"
    using assms(4,5) len by simp
  then have p: "1 \<in> set ?ys" using assms(6) by force
  show ?thesis
    unfolding gt_AP_def compute_ap_def gt_examples [OF assms(1,3)]
    using b p by (rule labelled_average_precision)
qed

theorem ground_truth_scores_perfect_witness:
  "gt_AP [[1, 0], [0, 0], [1, 1]] [[1, 1], [1, 1], [0, 1]] 0 = Some 1
   \<and> gt_AP [[1, 0], [0, 0], [1, 1]] [[1, 1], [1, 1], [0, 1]] 1 = Some 1"
  using ground_truth_scores_perfect [of 3 2 "[[1, 0], [0, 0], [1, 1]]" 0 0 "[[1, 1], [1, 1], [0, 1]]"]
    ground_truth_scores_perfect [of 3 2 "[[1, 0], [0, 0], [1, 1]]" 1 2 "[[1, 1], [1, 1], [0, 1]]"]
  by (simp add: has_shape2_def binary_def)

end
